theory Spec2Isabelle
  imports Main "HOL-Library.Word"
begin

unbundle bit_operations_syntax

section \<open>JavaScript values and payloads\<close>

text \<open>
  The payloads merged into the cache are JSON records.  A JavaScript value is a
  \<open>json option\<close>: \<open>None\<close> is \<^verbatim>\<open>undefined\<close> (what reading an absent
  property gives), \<open>Some Null\<close> is \<^verbatim>\<open>null\<close>.  Numbers are the integers the
  payloads carry (levels, positions, counts); strings are byte strings.
\<close>

datatype json =
    Null
  | Bool bool
  | Num int
  | Str string
  | Arr "json list"
  | Obj "(string \<times> json) list"

type_synonym jsval = "json option"

text \<open>
  A payload \<^verbatim>\<open>data\<close>: \<^verbatim>\<open>data.k\<close> is \<open>data k\<close>, \<^verbatim>\<open>data.k !== undefined\<close> is
  \<open>data k \<noteq> None\<close>, and \<^verbatim>\<open>data.hasOwnProperty("k")\<close> is \<open>data k \<noteq> None\<close> as well:
  a JSON payload never holds a key whose value is \<^verbatim>\<open>undefined\<close>.  The
  attributes an entity copies from payloads are kept the same way, under the
  attribute's own name; an attribute never assigned reads \<open>None\<close>.
\<close>

type_synonym payload = "string \<rightharpoonup> json"

text \<open>JavaScript's ToBoolean, as \<^verbatim>\<open>if(x)\<close>, \<^verbatim>\<open>!x\<close> and \<^verbatim>\<open>x || y\<close> use it.\<close>

fun truthy :: "jsval \<Rightarrow> bool" where
  "truthy None = False"
| "truthy (Some Null) = False"
| "truthy (Some (Bool b)) = b"
| "truthy (Some (Num n)) = (n \<noteq> 0)"
| "truthy (Some (Str s)) = (s \<noteq> [])"
| "truthy (Some (Arr xs)) = True"
| "truthy (Some (Obj kvs)) = True"

text \<open>\<^verbatim>\<open>x || y\<close>: the left operand when it is truthy, the right one otherwise.\<close>

definition js_or :: "jsval \<Rightarrow> jsval \<Rightarrow> jsval" where
  "js_or x y = (if truthy x then x else y)"

text \<open>\<^verbatim>\<open>if(data.f !== undefined) { this.a = data.f; }\<close> on an attribute store.\<close>

definition assign_defined :: "payload \<Rightarrow> string \<times> string \<Rightarrow> payload \<Rightarrow> payload" where
  "assign_defined data fa this =
     (case data (fst fa) of None \<Rightarrow> this | Some v \<Rightarrow> this(snd fa \<mapsto> v))"

datatype error = TypeError | Error string

section \<open>Permission values, roles, overwrites\<close>

text \<open>
  Capability masks are the 32-bit integers of JavaScript's bitwise operators
  (\<^verbatim>\<open>&\<close>, \<^verbatim>\<open>|\<close>, \<^verbatim>\<open>~\<close> work on the 32-bit two's complement value); a mask is
  truthy when it is not zero.
\<close>

type_synonym mask = "32 word"

text \<open>
  \<^verbatim>\<open>Constants.Permissions\<close> is not part of the sources at hand: the two masks the
  resolution reads from it are parameters of the model.
\<close>

record Permissions =
  administrator :: mask
  all :: mask

text \<open>
  Modelled from the spec: the Permission class (\<^verbatim>\<open>new Permission(allow)\<close>, read
  back as \<^verbatim>\<open>.allow\<close>) is an immutable wrapper around a single capability
  bitmask.
\<close>

datatype Permission = Permission (allow: mask)

record Role =
  permissions :: Permission

text \<open>
  Modelled from the spec: a Permission Overwrite is a pair of an allow mask and a
  deny mask, registered on a channel under its subject's id.
\<close>

record PermissionOverwrite =
  allow :: mask
  deny :: mask

section \<open>Members, voice states, clubs, channels\<close>

text \<open>
  The embedded user object of a member payload (\<^verbatim>\<open>data.user\<close>): its id and its
  other fields.
\<close>

record UserData =
  id :: string
  props :: payload

text \<open>
  Modelled from the spec: the shared User object of the process-wide user
  registry (\<^verbatim>\<open>new User(data.user, client)\<close>); only the payload it was built from
  is kept.
\<close>

datatype User = User UserData

text \<open>
  Modelled from the spec: a Voice State holds the member id and the attributes
  \<^verbatim>\<open>channelID\<close>, \<^verbatim>\<open>mute\<close>, \<^verbatim>\<open>deaf\<close>, \<^verbatim>\<open>suppress\<close>.
\<close>

record VoiceState =
  id :: string
  attrs :: payload

text \<open>
  A Member: \<open>user\<close> is \<open>None\<close> when the constructor stored \<^verbatim>\<open>null\<close>; \<open>roles\<close>
  is the array of role ids; \<open>attrs\<close> holds \<^verbatim>\<open>game\<close>, \<^verbatim>\<open>nick\<close>, \<^verbatim>\<open>status\<close>,
  \<^verbatim>\<open>joinedAt\<close>, \<^verbatim>\<open>clientStatus\<close>, \<^verbatim>\<open>activities\<close> and \<^verbatim>\<open>premiumSince\<close>.  The
  back-reference \<^verbatim>\<open>this.club\<close> is passed to each operation that follows it.
\<close>

record Member =
  id :: string
  user :: "User option"
  roles :: "string list"
  attrs :: payload

text \<open>
  A Club: \<open>attrs\<close> holds its scalar attributes under their own names, those
  \<^verbatim>\<open>update\<close> copies (\<^verbatim>\<open>name\<close>, \<^verbatim>\<open>ownerID\<close>, ...) and those only the constructor
  sets (\<^verbatim>\<open>memberCount\<close>, \<^verbatim>\<open>unavailable\<close>, \<^verbatim>\<open>joinedAt\<close>, \<^verbatim>\<open>widgetEnabled\<close>,
  \<^verbatim>\<open>widgetChannelID\<close>, \<^verbatim>\<open>approximateMemberCount\<close>,
  \<^verbatim>\<open>approximatePresenceCount\<close>); the Collections are maps from id to entity
  (\<^verbatim>\<open>get\<close>, \<^verbatim>\<open>has\<close>, \<^verbatim>\<open>delete\<close> are the operations of a JavaScript Map).
\<close>

record Club =
  id :: string
  attrs :: payload
  roles :: "string \<rightharpoonup> Role"
  members :: "string \<rightharpoonup> Member"
  voiceStates :: "string \<rightharpoonup> VoiceState"

text \<open>
  A club channel: \<open>attrs\<close> holds \<^verbatim>\<open>type\<close>, \<^verbatim>\<open>name\<close>, \<^verbatim>\<open>position\<close>, \<^verbatim>\<open>parentID\<close>
  and \<^verbatim>\<open>nsfw\<close>.  \<open>permissionOverwrites\<close> is \<open>None\<close> while the attribute is
  \<^verbatim>\<open>undefined\<close>: \<^verbatim>\<open>update\<close> is the only place that assigns it, and only for a
  payload with a truthy \<^verbatim>\<open>permission_overwrites\<close>.  The owning club
  (\<^verbatim>\<open>this.club\<close>) is passed to \<^verbatim>\<open>permissionsOf\<close>.
\<close>

record ClubChannel =
  id :: string
  attrs :: payload
  permissionOverwrites :: "(string \<rightharpoonup> PermissionOverwrite) option"

section \<open>Permission resolution\<close>

text \<open>
  The argument of \<^verbatim>\<open>permissionsOf\<close> is an id or a Member instance:
  \<^verbatim>\<open>memberID instanceof Member ? memberID : club.members.get(memberID)\<close>.
\<close>

datatype member_arg = MemberID string | MemberInstance Member

definition resolve_member :: "(string \<rightharpoonup> Member) \<Rightarrow> member_arg \<Rightarrow> Member option" where
  "resolve_member reg memberID =
     (case memberID of MemberInstance m \<Rightarrow> Some m | MemberID i \<Rightarrow> reg i)"

text \<open>
  The loop of \<^verbatim>\<open>Club.permissionsOf\<close> over \<^verbatim>\<open>member.roles\<close>: an id with no role in
  the registry is skipped (\<^verbatim>\<open>continue\<close>), a role with the administrator bit
  ends the loop with \<^verbatim>\<open>Permissions.all\<close> (\<^verbatim>\<open>break\<close>), any other role is OR-ed in.
\<close>

fun Club_permissionsOf_loop ::
  "Permissions \<Rightarrow> (string \<rightharpoonup> Role) \<Rightarrow> string list \<Rightarrow> mask \<Rightarrow> mask" where
  "Club_permissionsOf_loop P reg [] perms = perms"
| "Club_permissionsOf_loop P reg (role # rest) perms =
     (case reg role of
        None \<Rightarrow> Club_permissionsOf_loop P reg rest perms
      | Some r \<Rightarrow>
          (let perm = Permission.allow (permissions r) in
           if perm AND administrator P \<noteq> 0 then all P
           else Club_permissionsOf_loop P reg rest (perms OR perm)))"

text \<open>
  \<^verbatim>\<open>Club.permissionsOf\<close>.  Reading \<^verbatim>\<open>member.id\<close> of an id that resolves to no
  member, and \<^verbatim>\<open>.permissions\<close> of a missing everyone role, throw a TypeError.
\<close>

definition Club_permissionsOf :: "Permissions \<Rightarrow> Club \<Rightarrow> member_arg \<Rightarrow> error + Permission" where
  "Club_permissionsOf P this memberID =
     (case resolve_member (members this) memberID of
        None \<Rightarrow> Inl TypeError
      | Some member \<Rightarrow>
          if Some (Str (Member.id member)) = Club.attrs this ''ownerID''
          then Inr (Permission (all P))
          else (case Club.roles this (Club.id this) of
                  None \<Rightarrow> Inl TypeError
                | Some everyone \<Rightarrow>
                    Inr (Permission
                      (Club_permissionsOf_loop P (Club.roles this) (Member.roles member)
                         (Permission.allow (permissions everyone))))))"

text \<open>
  The loop of \<^verbatim>\<open>ClubChannel.permissionsOf\<close> over \<^verbatim>\<open>member.roles\<close>, on the pair
  (\<^verbatim>\<open>deny\<close>, \<^verbatim>\<open>allow\<close>).
\<close>

fun ClubChannel_permissionsOf_loop ::
  "(string \<rightharpoonup> PermissionOverwrite) \<Rightarrow> string list \<Rightarrow> mask \<times> mask \<Rightarrow> mask \<times> mask" where
  "ClubChannel_permissionsOf_loop ows [] (d, a) = (d, a)"
| "ClubChannel_permissionsOf_loop ows (roleID # rest) (d, a) =
     (case ows roleID of
        Some overwrite \<Rightarrow>
          ClubChannel_permissionsOf_loop ows rest
            (d OR deny overwrite, a OR PermissionOverwrite.allow overwrite)
      | None \<Rightarrow> ClubChannel_permissionsOf_loop ows rest (d, a))"

text \<open>
  \<^verbatim>\<open>ClubChannel.permissionsOf\<close>, with the owning club as \<open>club\<close>.  An
  administrator is answered before the overwrites are read; for anyone else
  \<^verbatim>\<open>this.permissionOverwrites.get\<close> throws a TypeError on a channel whose
  \<^verbatim>\<open>permissionOverwrites\<close> was never assigned.
\<close>

definition ClubChannel_permissionsOf ::
  "Permissions \<Rightarrow> Club \<Rightarrow> ClubChannel \<Rightarrow> member_arg \<Rightarrow> error + Permission" where
  "ClubChannel_permissionsOf P club this memberID =
     (case resolve_member (members club) memberID of
        None \<Rightarrow> Inl TypeError
      | Some member \<Rightarrow>
          (case Club_permissionsOf P club (MemberInstance member) of
             Inl e \<Rightarrow> Inl e
           | Inr p \<Rightarrow>
               (let permission = Permission.allow p in
                if permission AND administrator P \<noteq> 0 then Inr (Permission (all P))
                else
                  (case permissionOverwrites this of
                     None \<Rightarrow> Inl TypeError
                   | Some ows \<Rightarrow>
                       (let permission =
                              (case ows (Club.id club) of
                                 Some overwrite \<Rightarrow>
                                   (permission AND NOT (deny overwrite))
                                     OR PermissionOverwrite.allow overwrite
                               | None \<Rightarrow> permission);
                            da = ClubChannel_permissionsOf_loop ows (Member.roles member) (0, 0);
                            permission = (permission AND NOT (fst da)) OR snd da;
                            permission =
                              (case ows (Member.id member) of
                                 Some overwrite \<Rightarrow>
                                   (permission AND NOT (deny overwrite))
                                     OR PermissionOverwrite.allow overwrite
                               | None \<Rightarrow> permission)
                        in Inr (Permission permission))))))"

subsection \<open>The resolution order in the words of the specification\<close>

text \<open>
  One overwrite applied to a mask, \<open>(permission AND NOT deny) OR allow\<close>, when the
  overwrite is present.
\<close>

definition apply_overwrite :: "mask \<Rightarrow> PermissionOverwrite option \<Rightarrow> mask" where
  "apply_overwrite permission ov =
     (case ov of
        None \<Rightarrow> permission
      | Some overwrite \<Rightarrow>
          (permission AND NOT (deny overwrite)) OR PermissionOverwrite.allow overwrite)"

text \<open>The overwrites registered for the roles a member holds, in role order.\<close>

definition role_overwrites ::
  "(string \<rightharpoonup> PermissionOverwrite) \<Rightarrow> string list \<Rightarrow> PermissionOverwrite list" where
  "role_overwrites ows rs = List.map_filter ows rs"

text \<open>The pooled pair: all deny masks OR-ed together, all allow masks OR-ed together.\<close>

definition pooled_overwrite ::
  "(string \<rightharpoonup> PermissionOverwrite) \<Rightarrow> string list \<Rightarrow> PermissionOverwrite" where
  "pooled_overwrite ows rs =
     \<lparr>PermissionOverwrite.allow =
        foldr (OR) (map PermissionOverwrite.allow (role_overwrites ows rs)) 0,
      deny = foldr (OR) (map deny (role_overwrites ows rs)) 0\<rparr>"

text \<open>
  On the overwrite registry \<open>ows\<close> of a channel: everyone overwrite, then the
  pooled role overwrites, then the member overwrite.
\<close>

definition ordered_overwrites ::
  "Club \<Rightarrow> (string \<rightharpoonup> PermissionOverwrite) \<Rightarrow> Member \<Rightarrow> mask \<Rightarrow> mask" where
  "ordered_overwrites club ows member base =
     apply_overwrite
       (apply_overwrite
          (apply_overwrite base (ows (Club.id club)))
          (Some (pooled_overwrite ows (Member.roles member))))
       (ows (Member.id member))"

text \<open>The roles of the registry that a member holds, in role order.\<close>

definition held_roles :: "(string \<rightharpoonup> Role) \<Rightarrow> string list \<Rightarrow> Role list" where
  "held_roles reg rs = List.map_filter reg rs"

definition is_administrator :: "Permissions \<Rightarrow> Role \<Rightarrow> bool" where
  "is_administrator P r = (Permission.allow (permissions r) AND administrator P \<noteq> 0)"

text \<open>The allow masks of a list of roles OR-ed onto a base mask.\<close>

definition or_allow :: "Role list \<Rightarrow> mask \<Rightarrow> mask" where
  "or_allow rs base = fold (\<lambda>r acc. acc OR Permission.allow (permissions r)) rs base"

section \<open>Merge operations\<close>

text \<open>
  What the merge operations call that is not part of the sources at hand, as
  parameters of the model: the built-ins \<^verbatim>\<open>Date.parse\<close> and \<^verbatim>\<open>Object.assign\<close>,
  \<^verbatim>\<open>VoiceState.update\<close> (as \<^verbatim>\<open>state.update(data)\<close>), \<^verbatim>\<open>Collection.update\<close> on the
  voice states (as \<^verbatim>\<open>this.club.voiceStates.update(data)\<close>), \<^verbatim>\<open>Collection.add\<close> on
  the overwrites of a channel and on the process-wide user registry (which
  returns the user it holds afterwards).
\<close>

record MemberData =
  id :: "string option"
  user :: "UserData option"
  roles :: "string list option"
  props :: payload

record externals =
  Date_parse :: "json \<Rightarrow> json"
  Object_assign :: "json \<Rightarrow> json \<Rightarrow> json"
  VoiceState_update :: "MemberData \<Rightarrow> VoiceState \<Rightarrow> VoiceState"
  Collection_update_voiceStates :: "MemberData \<Rightarrow> (string \<rightharpoonup> VoiceState) \<Rightarrow> (string \<rightharpoonup> VoiceState)"
  Collection_add_overwrites ::
    "json \<Rightarrow> (string \<rightharpoonup> PermissionOverwrite) \<Rightarrow> (string \<rightharpoonup> PermissionOverwrite)"
  Collection_add_users :: "UserData \<Rightarrow> (string \<rightharpoonup> User) \<Rightarrow> User \<times> (string \<rightharpoonup> User)"

subsection \<open>Club\<close>

text \<open>
  \<^verbatim>\<open>Club.update\<close> is one guarded assignment per line,
  \<^verbatim>\<open>if(data.f !== undefined) { this.a = data.f; }\<close>, for these pairs of payload
  field \<open>f\<close> and attribute \<open>a\<close>, in this order.
\<close>

definition Club_update_fields :: "(string \<times> string) list" where
  "Club_update_fields =
     [(''name'', ''name''),
      (''verification_level'', ''verificationLevel''),
      (''splash'', ''splash''),
      (''banner'', ''banner''),
      (''region'', ''region''),
      (''owner_id'', ''ownerID''),
      (''icon'', ''icon''),
      (''features'', ''features''),
      (''emojis'', ''emojis''),
      (''afk_channel_id'', ''afkChannelID''),
      (''afk_timeout'', ''afkTimeout''),
      (''default_message_notifications'', ''defaultNotifications''),
      (''mfa_level'', ''mfaLevel''),
      (''large'', ''large''),
      (''max_presences'', ''maxPresences''),
      (''explicit_content_filter'', ''explicitContentFilter''),
      (''system_channel_id'', ''systemChannelID''),
      (''premium_tier'', ''premiumTier''),
      (''premium_subscription_count'', ''premiumSubscriptionCount''),
      (''vanity_url_code'', ''vanityURL''),
      (''preferred_locale'', ''preferredLocale''),
      (''description'', ''description''),
      (''max_members'', ''maxMembers''),
      (''public_updates_channel_id'', ''publicUpdatesChannelID''),
      (''rules_channel_id'', ''rulesChannelID''),
      (''max_video_channel_users'', ''maxVideoChannelUsers'')]"

definition Club_update :: "payload \<Rightarrow> Club \<Rightarrow> Club" where
  "Club_update data this =
     this\<lparr>Club.attrs := fold (assign_defined data) Club_update_fields (Club.attrs this)\<rparr>"

subsection \<open>Club channel\<close>

text \<open>
  \<^verbatim>\<open>this.name.length === 4 ? this.name === "nsfw" : this.name.startsWith("nsfw-")\<close>
  on the value of \<^verbatim>\<open>this.name\<close>.  Reading \<^verbatim>\<open>.length\<close> of \<^verbatim>\<open>undefined\<close> or \<^verbatim>\<open>null\<close>
  throws; a value that is not a string has no \<^verbatim>\<open>startsWith\<close> to call and is
  never \<^verbatim>\<open>=== "nsfw"\<close>.
\<close>

definition nsfw_name :: "jsval \<Rightarrow> error + bool" where
  "nsfw_name name =
     (case name of
        None \<Rightarrow> Inl TypeError
      | Some Null \<Rightarrow> Inl TypeError
      | Some (Bool b) \<Rightarrow> Inl TypeError
      | Some (Num n) \<Rightarrow> Inl TypeError
      | Some (Str s) \<Rightarrow> Inr (if length s = 4 then s = ''nsfw'' else take 5 s = ''nsfw-'')
      | Some (Arr xs) \<Rightarrow> if length xs = 4 then Inr False else Inl TypeError
      | Some (Obj kvs) \<Rightarrow>
          if map_of kvs ''length'' = Some (Num 4) then Inr False else Inl TypeError)"

text \<open>
  \<^verbatim>\<open>ClubChannel.update\<close>.  The channel is changed in place, so a throw leaves the
  assignments made before it: \<open>Inl\<close> holds the error and the channel as it is
  then.
\<close>

definition ClubChannel_update ::
  "externals \<Rightarrow> payload \<Rightarrow> ClubChannel \<Rightarrow> (error \<times> ClubChannel) + ClubChannel" where
  "ClubChannel_update E data this =
     (let a = ClubChannel.attrs this;
          a = assign_defined data (''type'', ''type'') a;
          a = assign_defined data (''name'', ''name'') a;
          a = assign_defined data (''position'', ''position'') a;
          a = assign_defined data (''parent_id'', ''parentID'') a;
          this = this\<lparr>ClubChannel.attrs := a\<rparr>
      in case nsfw_name (a ''name'') of
           Inl e \<Rightarrow> Inl (e, this)
         | Inr h \<Rightarrow>
             (let this = this\<lparr>ClubChannel.attrs :=
                           a(''nsfw'' := js_or (Some (Bool h)) (data ''nsfw''))\<rparr>
              in if truthy (data ''permission_overwrites'')
                 then (case data ''permission_overwrites'' of
                         Some (Arr overwrites) \<Rightarrow>
                           Inr (this\<lparr>permissionOverwrites :=
                                  Some (fold (Collection_add_overwrites E) overwrites Map.empty)\<rparr>)
                       | _ \<Rightarrow> Inl (TypeError, this\<lparr>permissionOverwrites := Some Map.empty\<rparr>))
                 else Inr this))"

subsection \<open>Member\<close>

text \<open>
  Modelled from the spec: \<^verbatim>\<open>new VoiceState({id})\<close> is the detached, all-default
  Voice State keyed by the id: no channel, not muted, not deafened, not
  suppressed.
\<close>

definition VoiceState_new :: "string \<Rightarrow> VoiceState" where
  "VoiceState_new i =
     \<lparr>VoiceState.id = i,
      attrs = [''channelID'' \<mapsto> Null, ''mute'' \<mapsto> Bool False,
               ''deaf'' \<mapsto> Bool False, ''suppress'' \<mapsto> Bool False]\<rparr>"

text \<open>
  The voice part of \<^verbatim>\<open>Member.update\<close>, run when the payload has a \<^verbatim>\<open>mute\<close> key
  and the member has a club.
\<close>

definition Member_update_voice :: "externals \<Rightarrow> MemberData \<Rightarrow> string \<Rightarrow> Club \<Rightarrow> Club" where
  "Member_update_voice E data this_id club =
     (let state = voiceStates club this_id;
          f = MemberData.props data
      in if f ''channel_id'' = Some Null \<and> \<not> truthy (f ''mute'') \<and> \<not> truthy (f ''deaf'')
            \<and> \<not> truthy (f ''suppress'')
         then club\<lparr>voiceStates := (voiceStates club)(this_id := None)\<rparr>
         else (case state of
                 Some st \<Rightarrow>
                   club\<lparr>voiceStates := (voiceStates club)(this_id \<mapsto> VoiceState_update E data st)\<rparr>
               | None \<Rightarrow>
                   if truthy (f ''channel_id'') \<or> truthy (f ''mute'') \<or> truthy (f ''deaf'')
                      \<or> truthy (f ''suppress'')
                   then club\<lparr>voiceStates := Collection_update_voiceStates E data (voiceStates club)\<rparr>
                   else club))"

text \<open>The target of \<^verbatim>\<open>Object.assign\<close> in \<^verbatim>\<open>Member.update\<close>.\<close>

definition client_status_defaults :: json where
  "client_status_defaults =
     Obj [(''web'', Str ''offline''), (''desktop'', Str ''offline''), (''mobile'', Str ''offline'')]"

text \<open>
  \<^verbatim>\<open>Member.update\<close>, with \<^verbatim>\<open>this.club\<close> as \<open>club\<close> (\<open>None\<close> when the member has no
  club); it returns the club and the member as they are afterwards.
\<close>

definition Member_update ::
  "externals \<Rightarrow> MemberData \<Rightarrow> Club option \<Rightarrow> Member \<Rightarrow> Club option \<times> Member" where
  "Member_update E data club this =
     (let f = MemberData.props data;
          a = Member.attrs this;
          a = assign_defined f (''status'', ''status'') a;
          a = assign_defined f (''game'', ''game'') a;
          a = (case f ''joined_at'' of
                 None \<Rightarrow> a
               | Some v \<Rightarrow> a(''joinedAt'' \<mapsto> Date_parse E v));
          a = (case f ''client_status'' of
                 None \<Rightarrow> a
               | Some v \<Rightarrow>
                   a(''clientStatus'' \<mapsto>
                       Object_assign E client_status_defaults v));
          a = assign_defined f (''activities'', ''activities'') a;
          a = assign_defined f (''premium_since'', ''premiumSince'') a;
          club = (case club of
                    None \<Rightarrow> None
                  | Some c \<Rightarrow>
                      if f ''mute'' \<noteq> None
                      then Some (Member_update_voice E data (Member.id this) c)
                      else Some c);
          a = assign_defined f (''nick'', ''nick'') a;
          rs = (case MemberData.roles data of None \<Rightarrow> Member.roles this | Some r \<Rightarrow> r)
      in (club, this\<lparr>Member.attrs := a, Member.roles := rs\<rparr>))"

text \<open>
  The \<^verbatim>\<open>voiceState\<close> getter: the registered state when the member has a club
  whose registry has one under the member's id, a new default one otherwise.
\<close>

definition Member_voiceState :: "Club option \<Rightarrow> Member \<Rightarrow> VoiceState" where
  "Member_voiceState club this =
     (case club of
        None \<Rightarrow> VoiceState_new (Member.id this)
      | Some c \<Rightarrow>
          (case voiceStates c (Member.id this) of
             Some st \<Rightarrow> st
           | None \<Rightarrow> VoiceState_new (Member.id this)))"

text \<open>Truthiness of \<^verbatim>\<open>data.id\<close>: a present, non-empty string.\<close>

definition truthy_id :: "string option \<Rightarrow> bool" where
  "truthy_id i = (case i of None \<Rightarrow> False | Some s \<Rightarrow> s \<noteq> [])"

text \<open>
  \<^verbatim>\<open>data.id || data.user.id\<close>, the argument of \<^verbatim>\<open>super\<close>: reading \<^verbatim>\<open>.id\<close> of an
  absent \<^verbatim>\<open>data.user\<close> throws a TypeError.
\<close>

definition Member_super_id :: "MemberData \<Rightarrow> error + string" where
  "Member_super_id data =
     (case MemberData.id data of
        Some s \<Rightarrow>
          if s \<noteq> [] then Inr s
          else (case MemberData.user data of
                  None \<Rightarrow> Inl TypeError
                | Some u \<Rightarrow> Inr (UserData.id u))
      | None \<Rightarrow>
          (case MemberData.user data of
             None \<Rightarrow> Inl TypeError
           | Some u \<Rightarrow> Inr (UserData.id u)))"

text \<open>
  The Member constructor, \<^verbatim>\<open>new Member(data, club, client)\<close>, with the
  process-wide user registry \<^verbatim>\<open>club.shard.client.users\<close> as \<open>users\<close>.  It
  returns the member, the club and the registry as they are afterwards, or the
  error thrown.
\<close>

definition Member_new ::
  "externals \<Rightarrow> MemberData \<Rightarrow> Club option \<Rightarrow> (string \<rightharpoonup> User) \<Rightarrow>
   error + (Member \<times> Club option \<times> (string \<rightharpoonup> User))" where
  "Member_new E data club users =
     (case Member_super_id data of
        Inl e \<Rightarrow> Inl e
      | Inr this_id \<Rightarrow>
          (let data = (if \<not> truthy_id (MemberData.id data) \<and> MemberData.user data \<noteq> None
                       then data\<lparr>MemberData.id := Some this_id\<rparr> else data);
               found =
                 (case club of
                    Some c \<Rightarrow>
                      (case (case MemberData.id data of None \<Rightarrow> None | Some i \<Rightarrow> users i) of
                         Some u \<Rightarrow> Inr (Some u, users)
                       | None \<Rightarrow>
                           (case MemberData.user data of
                              Some ud \<Rightarrow>
                                (let r = Collection_add_users E ud users in Inr (Some (fst r), snd r))
                            | None \<Rightarrow>
                                Inl (Error (''User associated with Member not found: '' @
                                       (case MemberData.id data of None \<Rightarrow> ''undefined''
                                        | Some i \<Rightarrow> i)))))
                  | None \<Rightarrow>
                      (case MemberData.user data of
                         Some ud \<Rightarrow> Inr (Some (User ud), users)
                       | None \<Rightarrow> Inr (None, users)))
           in case found of
                Inl e \<Rightarrow> Inl e
              | Inr (u, users') \<Rightarrow>
                  (let this = \<lparr>Member.id = this_id, user = u, roles = [],
                              attrs = [''game'' \<mapsto> Null, ''nick'' \<mapsto> Null]\<rparr>;
                       r = Member_update E data club this
                   in Inr (snd r, fst r, users'))))"

subsection \<open>The merge rule in the words of the specification\<close>

text \<open>
  A field absent from the payload leaves the attribute as it was before; a
  field present in the payload (with any value, \<^verbatim>\<open>null\<close>, \<^verbatim>\<open>0\<close>, \<^verbatim>\<open>""\<close> and
  \<^verbatim>\<open>false\<close> included) gives the attribute the payload's value.
\<close>

definition merged :: "payload \<Rightarrow> payload \<Rightarrow> string \<times> string \<Rightarrow> jsval" where
  "merged data before fa = (case data (fst fa) of None \<Rightarrow> before (snd fa) | Some v \<Rightarrow> Some v)"

text \<open>
  The pairs of payload field and attribute that \<^verbatim>\<open>Member.update\<close> and
  \<^verbatim>\<open>ClubChannel.update\<close> copy under the guard \<^verbatim>\<open>!== undefined\<close>.
\<close>

definition Member_update_fields :: "(string \<times> string) list" where
  "Member_update_fields =
     [(''status'', ''status''), (''game'', ''game''), (''activities'', ''activities''),
      (''premium_since'', ''premiumSince''), (''nick'', ''nick'')]"

definition ClubChannel_update_fields :: "(string \<times> string) list" where
  "ClubChannel_update_fields =
     [(''type'', ''type''), (''name'', ''name''), (''position'', ''position''),
      (''parent_id'', ''parentID'')]"

text \<open>
  The attributes \<^verbatim>\<open>Member.update\<close> and \<^verbatim>\<open>ClubChannel.update\<close> assign at all; a merge
  touches no other attribute.
\<close>

definition Member_update_attributes :: "string list" where
  "Member_update_attributes =
     [''status'', ''game'', ''joinedAt'', ''clientStatus'', ''activities'', ''premiumSince'',
      ''nick'']"

definition ClubChannel_update_attributes :: "string list" where
  "ClubChannel_update_attributes = [''type'', ''name'', ''position'', ''parentID'', ''nsfw'']"

text \<open>
  What an attribute of a channel reads after \<^verbatim>\<open>ClubChannel.update\<close> returned, or
  the error it threw.
\<close>

definition attr_after :: "(error \<times> ClubChannel) + ClubChannel \<Rightarrow> string \<Rightarrow> error + jsval" where
  "attr_after r a = (case r of Inl ec \<Rightarrow> Inl (fst ec) | Inr c \<Rightarrow> Inr (ClubChannel.attrs c a))"

section \<open>Example entities\<close>

text \<open>
  A small club used to run the operations on concrete inputs: the
  administrator bit is 8, the full mask is 2146958847.  Club \<open>1\<close> is owned by
  user \<open>9\<close>; its everyone role allows bit 1, role \<open>2\<close> allows 2, role \<open>3\<close>
  allows 16, role \<open>4\<close> allows the administrator bit.  Member \<open>7\<close> holds the
  roles \<open>2\<close> and \<open>3\<close> and a role id \<open>404\<close> that the club does not have.
  Channel \<open>5\<close> has an everyone overwrite that denies 1, an overwrite for
  role \<open>2\<close> that denies 4 and one for role \<open>3\<close> that allows 4.
\<close>

definition ex_Permissions :: Permissions where
  "ex_Permissions = \<lparr>administrator = 8, all = 2146958847\<rparr>"

definition ex_member :: Member where
  "ex_member =
     \<lparr>Member.id = ''7'',
      user = Some (User \<lparr>UserData.id = ''7'', props = [''username'' \<mapsto> Str ''ada'']\<rparr>),
      roles = [''2'', ''3'', ''404''],
      attrs = [''game'' \<mapsto> Null, ''nick'' \<mapsto> Null]\<rparr>"

definition ex_club :: Club where
  "ex_club =
     \<lparr>Club.id = ''1'',
      attrs = [''name'' \<mapsto> Str ''chess'', ''ownerID'' \<mapsto> Str ''9'', ''memberCount'' \<mapsto> Num 40],
      roles = [''1'' \<mapsto> \<lparr>permissions = Permission 1\<rparr>,
               ''2'' \<mapsto> \<lparr>permissions = Permission 2\<rparr>,
               ''3'' \<mapsto> \<lparr>permissions = Permission 16\<rparr>,
               ''4'' \<mapsto> \<lparr>permissions = Permission 8\<rparr>],
      members = [''7'' \<mapsto> ex_member],
      voiceStates =
        [''7'' \<mapsto> \<lparr>VoiceState.id = ''7'',
                    attrs = [''channelID'' \<mapsto> Str ''6'', ''mute'' \<mapsto> Bool True,
                             ''deaf'' \<mapsto> Bool False, ''suppress'' \<mapsto> Bool False]\<rparr>]\<rparr>"

definition ex_overwrites :: "string \<rightharpoonup> PermissionOverwrite" where
  "ex_overwrites =
     [''1'' \<mapsto> \<lparr>PermissionOverwrite.allow = 0, deny = 1\<rparr>,
      ''2'' \<mapsto> \<lparr>PermissionOverwrite.allow = 0, deny = 4\<rparr>,
      ''3'' \<mapsto> \<lparr>PermissionOverwrite.allow = 4, deny = 0\<rparr>]"

definition ex_channel :: ClubChannel where
  "ex_channel =
     \<lparr>ClubChannel.id = ''5'',
      attrs = [''name'' \<mapsto> Str ''general'', ''position'' \<mapsto> Num 0],
      permissionOverwrites = Some ex_overwrites\<rparr>"

text \<open>
  Stand-ins for the parameters: \<^verbatim>\<open>Date.parse\<close> and \<^verbatim>\<open>Object.assign\<close> return a
  record of their arguments, the merges of absent classes keep what is there,
  and the user registry stores the user built from the payload.
\<close>

definition ex_externals :: externals where
  "ex_externals =
     \<lparr>Date_parse = (\<lambda>v. Arr [Str ''Date.parse'', v]),
      Object_assign = (\<lambda>target source. Arr [Str ''Object.assign'', target, source]),
      VoiceState_update = (\<lambda>data st. st),
      Collection_update_voiceStates = (\<lambda>data reg. reg),
      Collection_add_overwrites = (\<lambda>overwrite reg. reg),
      Collection_add_users = (\<lambda>ud users. (User ud, users(UserData.id ud \<mapsto> User ud)))\<rparr>"

text \<open>
  Payloads for the merges: a club patch with \<^verbatim>\<open>null\<close>, \<^verbatim>\<open>0\<close>, \<^verbatim>\<open>false\<close> and
  \<^verbatim>\<open>""\<close> values, a member patch, a channel patch, and the voice payload of a
  member who disconnected.
\<close>

definition ex_club_data :: payload where
  "ex_club_data = [''name'' \<mapsto> Str ''go'', ''icon'' \<mapsto> Null, ''afk_timeout'' \<mapsto> Num 0,
                   ''large'' \<mapsto> Bool False, ''description'' \<mapsto> Str [],
                   ''member_count'' \<mapsto> Num 5]"

definition ex_member_data :: MemberData where
  "ex_member_data =
     \<lparr>MemberData.id = Some ''7'', user = None, roles = Some [],
      props = [''nick'' \<mapsto> Str [], ''game'' \<mapsto> Null, ''joined_at'' \<mapsto> Str ''2020-01-01'']\<rparr>"

definition ex_channel_data :: payload where
  "ex_channel_data = [''position'' \<mapsto> Num 0, ''parent_id'' \<mapsto> Null, ''nsfw'' \<mapsto> Bool False]"

definition ex_voice_data :: MemberData where
  "ex_voice_data =
     \<lparr>MemberData.id = Some ''7'', user = None, roles = None,
      props = [''channel_id'' \<mapsto> Null, ''mute'' \<mapsto> Bool False, ''deaf'' \<mapsto> Bool False,
               ''suppress'' \<mapsto> Bool False]\<rparr>"

section \<open>Properties of the resolution loops\<close>

lemma Club_loop_skips_unknown:
  "Club_permissionsOf_loop P reg rs perms =
   Club_permissionsOf_loop P reg (filter (\<lambda>r. reg r \<noteq> None) rs) perms"
  by (induction rs arbitrary: perms) (auto simp: Let_def split: option.splits)

lemma Club_loop_administrator:
  "r \<in> set rs \<Longrightarrow> reg r = Some role \<Longrightarrow> is_administrator P role \<Longrightarrow>
   Club_permissionsOf_loop P reg rs perms = all P"
  by (induction rs arbitrary: perms)
     (auto simp: is_administrator_def Let_def split: option.splits)

lemma Club_loop_no_administrator:
  "\<forall>role \<in> set (held_roles reg rs). \<not> is_administrator P role \<Longrightarrow>
   Club_permissionsOf_loop P reg rs perms = or_allow (held_roles reg rs) perms"
  by (induction rs arbitrary: perms)
     (auto simp: held_roles_def or_allow_def List.map_filter_simps is_administrator_def Let_def
           split: option.splits)

lemma ClubChannel_loop_pooled:
  "ClubChannel_permissionsOf_loop ows rs (d, a) =
   (d OR deny (pooled_overwrite ows rs), a OR PermissionOverwrite.allow (pooled_overwrite ows rs))"
  by (induction rs arbitrary: d a)
     (auto simp: pooled_overwrite_def role_overwrites_def List.map_filter_simps ac_simps
           split: option.splits)

section \<open>The example club at club scope\<close>

lemma ex_resolve: "resolve_member (members ex_club) (MemberID ''7'') = Some ex_member"
  by (simp add: resolve_member_def ex_club_def)

lemma ex_club_scope:
  "Club_permissionsOf ex_Permissions ex_club (MemberInstance ex_member) = Inr (Permission 19)"
  by (simp add: Club_permissionsOf_def resolve_member_def ex_club_def ex_member_def
        ex_Permissions_def)

section \<open>Channel-scope resolution\<close>

lemma ClubChannel_permissionsOf_club_error:
  "resolve_member (members club) memberID = Some m \<Longrightarrow>
   Club_permissionsOf P club (MemberInstance m) = Inl e \<Longrightarrow>
   ClubChannel_permissionsOf P club channel memberID = Inl e"
  by (simp add: ClubChannel_permissionsOf_def)

lemma ClubChannel_permissionsOf_unassigned:
  "resolve_member (members club) memberID = Some m \<Longrightarrow>
   Club_permissionsOf P club (MemberInstance m) = Inr base \<Longrightarrow>
   Permission.allow base AND administrator P = 0 \<Longrightarrow>
   permissionOverwrites channel = None \<Longrightarrow>
   ClubChannel_permissionsOf P club channel memberID = Inl TypeError"
  by (simp add: ClubChannel_permissionsOf_def)

text \<open>
  Claim C1, as amended.  For a member the argument resolves to, whose club-scope
  resolution returns \<open>base\<close>: when \<open>base\<close> holds the administrator bit,
  channel-scope \<^verbatim>\<open>permissionsOf\<close> returns \<^verbatim>\<open>Permissions.all\<close> and reads no
  overwrite; when it does not, on a channel that has its overwrite registry
  \<open>ows\<close>, it returns the mask obtained from \<open>base\<close> by applying, in this order,
  the overwrite registered under the club id (if present), the pooled
  overwrites of the roles the member holds (all deny masks OR-ed, all allow
  masks OR-ed, applied once), and the overwrite registered under the member id
  (if present), each as \<open>(permission AND NOT deny) OR allow\<close>.
\<close>

theorem C1_channel_resolution_order:
  assumes "resolve_member (members club) memberID = Some m"
      and "Club_permissionsOf P club (MemberInstance m) = Inr base"
  shows "(Permission.allow base AND administrator P \<noteq> 0 \<longrightarrow>
            ClubChannel_permissionsOf P club channel memberID = Inr (Permission (all P))) \<and>
         (Permission.allow base AND administrator P = 0 \<longrightarrow>
          permissionOverwrites channel = Some ows \<longrightarrow>
            ClubChannel_permissionsOf P club channel memberID =
              Inr (Permission (ordered_overwrites club ows m (Permission.allow base))))"
  using assms
  by (simp add: ClubChannel_permissionsOf_def ordered_overwrites_def apply_overwrite_def
        ClubChannel_loop_pooled Let_def split: option.splits)

text \<open>
  Member \<open>7\<close> in channel \<open>5\<close>: 19 at club scope, which has no administrator
  bit; the everyone overwrite gives 18, the pooled role overwrites 22, and
  there is no member overwrite.
\<close>

theorem C1_witness:
  "resolve_member (members ex_club) (MemberID ''7'') = Some ex_member \<and>
   Club_permissionsOf ex_Permissions ex_club (MemberInstance ex_member) = Inr (Permission 19) \<and>
   Permission.allow (Permission 19) AND administrator ex_Permissions = 0 \<and>
   permissionOverwrites ex_channel = Some ex_overwrites \<and>
   ordered_overwrites ex_club ex_overwrites ex_member 19 = 22 \<and>
   ClubChannel_permissionsOf ex_Permissions ex_club ex_channel (MemberID ''7'') =
     Inr (Permission 22)"
proof -
  have ord: "ordered_overwrites ex_club ex_overwrites ex_member 19 = 22"
    by (simp add: ordered_overwrites_def apply_overwrite_def pooled_overwrite_def
          role_overwrites_def List.map_filter_simps ex_club_def ex_overwrites_def ex_member_def)
  have na: "Permission.allow (Permission 19) AND administrator ex_Permissions = 0"
    by (simp add: ex_Permissions_def)
  have reg: "permissionOverwrites ex_channel = Some ex_overwrites"
    by (simp add: ex_channel_def)
  have "ClubChannel_permissionsOf ex_Permissions ex_club ex_channel (MemberID ''7'') =
          Inr (Permission (ordered_overwrites ex_club ex_overwrites ex_member
                 (Permission.allow (Permission 19))))"
    by (rule conjunct2 [OF C1_channel_resolution_order [OF ex_resolve ex_club_scope],
          rule_format, OF na reg])
  then have "ClubChannel_permissionsOf ex_Permissions ex_club ex_channel (MemberID ''7'') =
          Inr (Permission 22)"
    using ord by simp
  with ex_resolve ex_club_scope na reg ord show ?thesis by (intro conjI)
qed

text \<open>
  Claim C1 as stated fails for an administrator: a member holding role \<open>4\<close> gets
  the full mask 2146958847 in channel \<open>5\<close>, while the order of the claim applied
  to the club-wide mask 2146958847 gives 2146958846 (the everyone overwrite
  denies bit 1).
\<close>

theorem C1_counterexample:
  "Club_permissionsOf ex_Permissions ex_club
     (MemberInstance (ex_member\<lparr>Member.roles := [''4'']\<rparr>)) = Inr (Permission 2146958847) \<and>
   permissionOverwrites ex_channel = Some ex_overwrites \<and>
   ClubChannel_permissionsOf ex_Permissions ex_club ex_channel
     (MemberInstance (ex_member\<lparr>Member.roles := [''4'']\<rparr>)) = Inr (Permission 2146958847) \<and>
   ordered_overwrites ex_club ex_overwrites (ex_member\<lparr>Member.roles := [''4'']\<rparr>) 2146958847
     = 2146958846"
  by (simp add: ClubChannel_permissionsOf_def Club_permissionsOf_def resolve_member_def
        ordered_overwrites_def apply_overwrite_def pooled_overwrite_def role_overwrites_def
        List.map_filter_simps ex_club_def ex_channel_def ex_overwrites_def ex_member_def
        ex_Permissions_def)

text \<open>
  Claim C2.  For a member holding a role of the registry whose allow mask has the
  administrator bit, in a club that has its everyone role, with the
  administrator bit part of \<^verbatim>\<open>Permissions.all\<close>: club-scope and channel-scope
  \<^verbatim>\<open>permissionsOf\<close> both return \<^verbatim>\<open>Permissions.all\<close>, whatever overwrites the channel
  has.
\<close>

theorem C2_administrator_short_circuit:
  assumes "resolve_member (members club) memberID = Some m"
      and "r \<in> set (Member.roles m)" and "Club.roles club r = Some role"
      and "is_administrator P role"
      and "Club.roles club (Club.id club) \<noteq> None"
      and "all P AND administrator P \<noteq> 0"
  shows "Club_permissionsOf P club memberID = Inr (Permission (all P)) \<and>
         ClubChannel_permissionsOf P club channel memberID = Inr (Permission (all P))"
proof -
  have loop: "Club_permissionsOf_loop P (Club.roles club) (Member.roles m) perms = all P" for perms
    using assms(2-4) by (rule Club_loop_administrator)
  have club: "Club_permissionsOf P club memberID = Inr (Permission (all P))"
    using assms(1,5) by (auto simp: Club_permissionsOf_def loop)
  have inst: "Club_permissionsOf P club (MemberInstance m) = Inr (Permission (all P))"
    using assms(5) by (auto simp: Club_permissionsOf_def resolve_member_def loop)
  have "ClubChannel_permissionsOf P club channel memberID = Inr (Permission (all P))"
    using assms(1,6) by (simp add: ClubChannel_permissionsOf_def inst)
  with club show ?thesis by simp
qed

text \<open>
  A member holding the roles \<open>2\<close> and \<open>4\<close>, in channel \<open>5\<close> whose overwrites deny
  bits 1 and 4.
\<close>

theorem C2_witness:
  "Club_permissionsOf ex_Permissions ex_club
     (MemberInstance (ex_member\<lparr>Member.roles := [''2'', ''4'']\<rparr>)) = Inr (Permission 2146958847) \<and>
   ClubChannel_permissionsOf ex_Permissions ex_club ex_channel
     (MemberInstance (ex_member\<lparr>Member.roles := [''2'', ''4'']\<rparr>)) = Inr (Permission 2146958847)"
  using C2_administrator_short_circuit
    [of ex_club "MemberInstance (ex_member\<lparr>Member.roles := [''2'', ''4'']\<rparr>)"
        "ex_member\<lparr>Member.roles := [''2'', ''4'']\<rparr>" "''4''" "\<lparr>permissions = Permission 8\<rparr>"
        ex_Permissions ex_channel]
  by (simp add: resolve_member_def is_administrator_def ex_club_def ex_Permissions_def)


section \<open>Club-scope resolution\<close>

lemma Club_loop_held:
  "Club_permissionsOf_loop P reg rs perms =
   (if \<exists>role \<in> set (held_roles reg rs). is_administrator P role then all P
    else or_allow (held_roles reg rs) perms)"
proof (cases "\<exists>role \<in> set (held_roles reg rs). is_administrator P role")
  case True
  then obtain r role where "r \<in> set rs" "reg r = Some role" "is_administrator P role"
    by (auto simp: held_roles_def List.map_filter_def)
  then have "Club_permissionsOf_loop P reg rs perms = all P"
    by (rule Club_loop_administrator)
  with True show ?thesis by simp
next
  case False
  then show ?thesis by (simp add: Club_loop_no_administrator)
qed

text \<open>
  Claim C3, as amended.  For a member the argument resolves to: when the
  member's id is the club's \<^verbatim>\<open>ownerID\<close>, club-scope \<^verbatim>\<open>permissionsOf\<close> returns
  \<^verbatim>\<open>Permissions.all\<close> (whatever roles the member holds, and whether or not the
  club has an everyone role); otherwise, in a club with an everyone role, it
  returns \<^verbatim>\<open>Permissions.all\<close> when a role the member holds has the administrator
  bit, and else the everyone role's allow mask OR-ed with the allow mask of
  every role the member holds; no mask is ever subtracted.
\<close>

theorem C3_club_scope_resolution:
  assumes "resolve_member (members club) memberID = Some m"
  shows "(Some (Str (Member.id m)) = Club.attrs club ''ownerID'' \<longrightarrow>
            Club_permissionsOf P club memberID = Inr (Permission (all P))) \<and>
         (Some (Str (Member.id m)) \<noteq> Club.attrs club ''ownerID'' \<longrightarrow>
          Club.roles club (Club.id club) = Some everyone \<longrightarrow>
            Club_permissionsOf P club memberID =
              Inr (Permission
                (if \<exists>role \<in> set (held_roles (Club.roles club) (Member.roles m)).
                      is_administrator P role
                 then all P
                 else or_allow (held_roles (Club.roles club) (Member.roles m))
                        (Permission.allow (permissions everyone)))))"
  using assms by (simp add: Club_permissionsOf_def Club_loop_held)

text \<open>
  The owner \<open>9\<close>, who holds no role, gets the full mask; member \<open>7\<close> gets
  1 OR 2 OR 16 = 19.
\<close>

theorem C3_witness:
  "Club_permissionsOf ex_Permissions ex_club
     (MemberInstance \<lparr>Member.id = ''9'', user = None, roles = [], attrs = Map.empty\<rparr>) =
     Inr (Permission 2146958847) \<and>
   Club_permissionsOf ex_Permissions ex_club (MemberID ''7'') = Inr (Permission 19)"
proof -
  have held: "held_roles (Club.roles ex_club) (Member.roles ex_member) =
              [\<lparr>permissions = Permission 2\<rparr>, \<lparr>permissions = Permission 16\<rparr>]"
    by (simp add: held_roles_def List.map_filter_simps ex_club_def ex_member_def)
  have owner: "Club_permissionsOf ex_Permissions ex_club
     (MemberInstance \<lparr>Member.id = ''9'', user = None, roles = [], attrs = Map.empty\<rparr>) =
     Inr (Permission 2146958847)"
    using C3_club_scope_resolution
      [of ex_club "MemberInstance \<lparr>Member.id = ''9'', user = None, roles = [], attrs = Map.empty\<rparr>"
          "\<lparr>Member.id = ''9'', user = None, roles = [], attrs = Map.empty\<rparr>" ex_Permissions]
    by (simp add: resolve_member_def ex_club_def ex_Permissions_def)
  have other: "Club_permissionsOf ex_Permissions ex_club (MemberID ''7'') = Inr (Permission 19)"
    using C3_club_scope_resolution
      [of ex_club "MemberID ''7''" ex_member ex_Permissions "\<lparr>permissions = Permission 1\<rparr>"]
    by (simp add: ex_resolve held is_administrator_def or_allow_def ex_Permissions_def)
       (simp add: ex_club_def ex_member_def)
  from owner other show ?thesis by simp
qed

text \<open>
  Claim C3 as stated fails for a member who is not the owner and holds the
  administrator role \<open>4\<close>: the everyone mask OR-ed with the held role's mask is
  1 OR 8 = 9, and the resolution returns the full mask 2146958847.
\<close>

theorem C3_counterexample:
  "Some (Str (Member.id (ex_member\<lparr>Member.roles := [''4'']\<rparr>))) \<noteq> Club.attrs ex_club ''ownerID'' \<and>
   Club.roles ex_club (Club.id ex_club) = Some \<lparr>permissions = Permission 1\<rparr> \<and>
   held_roles (Club.roles ex_club) (Member.roles (ex_member\<lparr>Member.roles := [''4'']\<rparr>)) =
     [\<lparr>permissions = Permission 8\<rparr>] \<and>
   or_allow [\<lparr>permissions = Permission 8\<rparr>] 1 = 9 \<and>
   Club_permissionsOf ex_Permissions ex_club
     (MemberInstance (ex_member\<lparr>Member.roles := [''4'']\<rparr>)) = Inr (Permission 2146958847)"
  by (simp add: Club_permissionsOf_def resolve_member_def held_roles_def or_allow_def
        List.map_filter_simps ex_club_def ex_member_def ex_Permissions_def)


section \<open>Pooled role overwrites\<close>

lemma pooled_allow_bit:
  "r \<in> set rs \<Longrightarrow> ows r = Some ov \<Longrightarrow> bit (PermissionOverwrite.allow ov) c \<Longrightarrow>
   bit (PermissionOverwrite.allow (pooled_overwrite ows rs)) c"
  by (induction rs)
     (auto simp: pooled_overwrite_def role_overwrites_def List.map_filter_simps bit_or_iff
           split: option.splits)

lemma pooled_deny_bit:
  "r \<in> set rs \<Longrightarrow> ows r = Some ov \<Longrightarrow> bit (deny ov) c \<Longrightarrow>
   bit (deny (pooled_overwrite ows rs)) c"
  by (induction rs)
     (auto simp: pooled_overwrite_def role_overwrites_def List.map_filter_simps bit_or_iff
           split: option.splits)

text \<open>
  Claim C4, as amended.  A member, not an administrator at club scope, holds
  roles \<open>R1\<close> and \<open>R2\<close>; in the overwrite registry \<open>ows\<close> of the channel the
  overwrite of \<open>R1\<close> denies bit \<open>c\<close> and the overwrite of \<open>R2\<close> allows it.  Then
  the pooled deny mask and the pooled allow mask both hold bit \<open>c\<close>, and,
  provided the overwrite registered under the member's own id (if there is one)
  does not deny \<open>c\<close> without allowing it, bit \<open>c\<close> is set in the mask
  channel-scope \<^verbatim>\<open>permissionsOf\<close> returns.
\<close>

theorem C4_pooled_allow_wins:
  assumes "resolve_member (members club) memberID = Some m"
      and "Club_permissionsOf P club (MemberInstance m) = Inr base"
      and "Permission.allow base AND administrator P = 0"
      and "permissionOverwrites channel = Some ows"
      and "R1 \<in> set (Member.roles m)" and "ows R1 = Some o1"
      and "bit (deny o1) c"
      and "R2 \<in> set (Member.roles m)" and "ows R2 = Some o2"
      and "bit (PermissionOverwrite.allow o2) c"
      and "\<forall>om. ows (Member.id m) = Some om \<longrightarrow>
                bit (PermissionOverwrite.allow om) c \<or> \<not> bit (deny om) c"
  shows "bit (deny (pooled_overwrite ows (Member.roles m))) c \<and>
         bit (PermissionOverwrite.allow (pooled_overwrite ows (Member.roles m))) c \<and>
         (\<exists>final. ClubChannel_permissionsOf P club channel memberID = Inr (Permission final) \<and>
                   bit final c)"
proof -
  let ?pool = "pooled_overwrite ows (Member.roles m)"
  have d: "bit (deny ?pool) c"
    using assms(5-7) by (rule pooled_deny_bit)
  have a: "bit (PermissionOverwrite.allow ?pool) c"
    using assms(8-10) by (rule pooled_allow_bit)
  have res: "ClubChannel_permissionsOf P club channel memberID =
             Inr (Permission (ordered_overwrites club ows m (Permission.allow base)))"
    using assms(1-4)
    by (simp add: ClubChannel_permissionsOf_def ordered_overwrites_def apply_overwrite_def
          ClubChannel_loop_pooled Let_def split: option.splits)
  have "bit (ordered_overwrites club ows m (Permission.allow base)) c"
    using a assms(11)
    by (auto simp: ordered_overwrites_def apply_overwrite_def bit_or_iff bit_and_iff bit_not_iff
             split: option.splits dest: bit_imp_possible_bit)
  with d a res show ?thesis by blast
qed

text \<open>
  Member \<open>7\<close> in channel \<open>5\<close>: role \<open>2\<close> denies 4 (bit 2), role \<open>3\<close> allows it.
\<close>

theorem C4_witness:
  "bit (deny (pooled_overwrite ex_overwrites (Member.roles ex_member))) 2 \<and>
   bit (PermissionOverwrite.allow (pooled_overwrite ex_overwrites (Member.roles ex_member))) 2 \<and>
   (\<exists>final. ClubChannel_permissionsOf ex_Permissions ex_club ex_channel (MemberID ''7'') =
              Inr (Permission final) \<and> bit final 2)"
proof -
  have h3: "Permission.allow (Permission 19) AND administrator ex_Permissions = 0"
    by (simp add: ex_Permissions_def)
  have reg: "permissionOverwrites ex_channel = Some ex_overwrites"
    by (simp add: ex_channel_def)
  have r1: "''2'' \<in> set (Member.roles ex_member)" and r2: "''3'' \<in> set (Member.roles ex_member)"
    by (simp_all add: ex_member_def)
  have o1: "ex_overwrites ''2'' = Some \<lparr>PermissionOverwrite.allow = 0, deny = 4\<rparr>"
   and o2: "ex_overwrites ''3'' = Some \<lparr>PermissionOverwrite.allow = 4, deny = 0\<rparr>"
    by (simp_all add: ex_overwrites_def)
  have b1: "bit (deny \<lparr>PermissionOverwrite.allow = 0, deny = 4\<rparr>) (2::nat)"
   and b2: "bit (PermissionOverwrite.allow \<lparr>PermissionOverwrite.allow = 4, deny = 0\<rparr>) (2::nat)"
    by (simp_all add: bit_numeral_iff bit_iff_odd)
  have om: "\<forall>om. ex_overwrites (Member.id ex_member) = Some om \<longrightarrow>
                bit (PermissionOverwrite.allow om) (2::nat) \<or> \<not> bit (deny om) (2::nat)"
    by (simp add: ex_overwrites_def ex_member_def)
  show ?thesis
    by (rule C4_pooled_allow_wins [OF ex_resolve ex_club_scope h3 reg r1 o1 b1 r2 o2 b2 om])
qed

text \<open>
  Claim C4 as stated fails when the member's own overwrite denies the bit: with
  an overwrite under id \<open>7\<close> that denies 4 added to channel \<open>5\<close>, member \<open>7\<close>
  resolves to 18, where bit 2 is clear.
\<close>

theorem C4_counterexample:
  "''2'' \<in> set (Member.roles ex_member) \<and> ''3'' \<in> set (Member.roles ex_member) \<and>
   deny (the (ex_overwrites ''2'')) = 4 \<and>
   PermissionOverwrite.allow (the (ex_overwrites ''3'')) = 4 \<and>
   ClubChannel_permissionsOf ex_Permissions ex_club
     (ex_channel\<lparr>permissionOverwrites :=
        Some (ex_overwrites(''7'' \<mapsto> \<lparr>PermissionOverwrite.allow = 0, deny = 4\<rparr>))\<rparr>)
     (MemberID ''7'') = Inr (Permission 18) \<and>
   \<not> bit (18 :: mask) 2"
  by (simp add: ClubChannel_permissionsOf_def Club_permissionsOf_def resolve_member_def
        ex_club_def ex_channel_def ex_overwrites_def ex_member_def ex_Permissions_def bit_iff_odd)

section \<open>Role ids the club does not have\<close>

text \<open>
  Claim C10, as amended.  For a member who is not the owner, in a club with an
  everyone role, club-scope \<^verbatim>\<open>permissionsOf\<close> raises no error, and the role ids on
  the member's list that the registry does not have contribute nothing: the
  result is the one for the member with those ids removed.  It is
  \<^verbatim>\<open>Permissions.all\<close> when a held role of the registry has the administrator bit,
  and else the everyone role's allow mask OR-ed with the allow masks of exactly
  the held roles the registry has.
\<close>

theorem C10_unknown_roles_skipped:
  assumes "resolve_member (members club) memberID = Some m"
      and "Some (Str (Member.id m)) \<noteq> Club.attrs club ''ownerID''"
      and "Club.roles club (Club.id club) = Some everyone"
  shows "Club_permissionsOf P club memberID =
           Club_permissionsOf P club
             (MemberInstance
                (m\<lparr>Member.roles := filter (\<lambda>r. Club.roles club r \<noteq> None) (Member.roles m)\<rparr>)) \<and>
         Club_permissionsOf P club memberID =
           Inr (Permission
             (if \<exists>role \<in> set (held_roles (Club.roles club) (Member.roles m)).
                   is_administrator P role
              then all P
              else or_allow (held_roles (Club.roles club) (Member.roles m))
                     (Permission.allow (permissions everyone))))"
proof -
  have "Club_permissionsOf P club memberID =
        Inr (Permission (Club_permissionsOf_loop P (Club.roles club) (Member.roles m)
               (Permission.allow (permissions everyone))))"
    using assms by (simp add: Club_permissionsOf_def)
  moreover have "Club_permissionsOf P club
             (MemberInstance
                (m\<lparr>Member.roles := filter (\<lambda>r. Club.roles club r \<noteq> None) (Member.roles m)\<rparr>)) =
        Inr (Permission (Club_permissionsOf_loop P (Club.roles club)
               (filter (\<lambda>r. Club.roles club r \<noteq> None) (Member.roles m))
               (Permission.allow (permissions everyone))))"
    using assms by (simp add: Club_permissionsOf_def resolve_member_def)
  ultimately show ?thesis
    using Club_loop_skips_unknown [of P "Club.roles club" "Member.roles m"]
    by (simp add: Club_loop_held)
qed

text \<open>
  Member \<open>7\<close> holds \<open>2\<close>, \<open>3\<close> and the unknown id \<open>404\<close>, and resolves as with
  \<open>2\<close> and \<open>3\<close> alone, to 19.
\<close>

theorem C10_witness:
  "Club.roles ex_club ''404'' = None \<and>
   Club_permissionsOf ex_Permissions ex_club (MemberID ''7'') =
     Club_permissionsOf ex_Permissions ex_club
       (MemberInstance (ex_member\<lparr>Member.roles := [''2'', ''3'']\<rparr>)) \<and>
   Club_permissionsOf ex_Permissions ex_club (MemberID ''7'') = Inr (Permission 19)"
proof -
  have held: "held_roles (Club.roles ex_club) (Member.roles ex_member) =
              [\<lparr>permissions = Permission 2\<rparr>, \<lparr>permissions = Permission 16\<rparr>]"
    by (simp add: held_roles_def List.map_filter_simps ex_club_def ex_member_def)
  have flt: "filter (\<lambda>r. Club.roles ex_club r \<noteq> None) (Member.roles ex_member) = [''2'', ''3'']"
    by (simp add: ex_club_def ex_member_def)
  have no: "Some (Str (Member.id ex_member)) \<noteq> Club.attrs ex_club ''ownerID''"
    by (simp add: ex_club_def ex_member_def)
  have ev: "Club.roles ex_club (Club.id ex_club) = Some \<lparr>permissions = Permission 1\<rparr>"
    by (simp add: ex_club_def)
  have un: "Club.roles ex_club ''404'' = None"
    by (simp add: ex_club_def)
  have na: "\<not> (\<exists>role \<in> set [\<lparr>permissions = Permission 2\<rparr>, \<lparr>permissions = Permission 16\<rparr>].
                 is_administrator ex_Permissions role)"
    by (simp add: is_administrator_def ex_Permissions_def)
  note th = C10_unknown_roles_skipped [OF ex_resolve no ev, of ex_Permissions, unfolded flt held]
  have same: "Club_permissionsOf ex_Permissions ex_club (MemberID ''7'') =
          Club_permissionsOf ex_Permissions ex_club
            (MemberInstance (ex_member\<lparr>Member.roles := [''2'', ''3'']\<rparr>))"
    using th by (rule conjunct1)
  have "Club_permissionsOf ex_Permissions ex_club (MemberID ''7'') = Inr (Permission 19)"
    using conjunct2 [OF th] na by (simp add: or_allow_def)
  with un same show ?thesis by (intro conjI)
qed

text \<open>
  Claim C10 as stated fails for a member holding the unknown id \<open>404\<close> and the
  administrator role \<open>4\<close>: the everyone mask OR-ed with the masks of the held
  roles the registry has is 1 OR 8 = 9, and the resolution returns 2146958847.
\<close>

theorem C10_counterexample:
  "Club.roles ex_club ''404'' = None \<and>
   Some (Str (Member.id (ex_member\<lparr>Member.roles := [''404'', ''4'']\<rparr>))) \<noteq>
     Club.attrs ex_club ''ownerID'' \<and>
   held_roles (Club.roles ex_club) [''404'', ''4''] = [\<lparr>permissions = Permission 8\<rparr>] \<and>
   or_allow [\<lparr>permissions = Permission 8\<rparr>] (Permission.allow (Permission 1)) = 9 \<and>
   Club_permissionsOf ex_Permissions ex_club
     (MemberInstance (ex_member\<lparr>Member.roles := [''404'', ''4'']\<rparr>)) = Inr (Permission 2146958847)"
  by (simp add: Club_permissionsOf_def resolve_member_def held_roles_def or_allow_def
        List.map_filter_simps ex_club_def ex_member_def ex_Permissions_def)

section \<open>Properties of the merge operations\<close>

lemma assign_defined_apply:
  "assign_defined data (f, a) this b =
     (if b = a then (case data f of None \<Rightarrow> this a | Some v \<Rightarrow> Some v) else this b)"
  by (simp add: assign_defined_def split: option.splits)

lemma Member_update_attrs:
  "Member.attrs (snd (Member_update E data club this)) =
     assign_defined (MemberData.props data) (''nick'', ''nick'')
       (assign_defined (MemberData.props data) (''premium_since'', ''premiumSince'')
         (assign_defined (MemberData.props data) (''activities'', ''activities'')
           ((case MemberData.props data ''client_status'' of
               None \<Rightarrow> (\<lambda>a. a)
             | Some v \<Rightarrow> (\<lambda>a. a(''clientStatus'' \<mapsto> Object_assign E client_status_defaults v)))
             ((case MemberData.props data ''joined_at'' of
                 None \<Rightarrow> (\<lambda>a. a)
               | Some v \<Rightarrow> (\<lambda>a. a(''joinedAt'' \<mapsto> Date_parse E v)))
               (assign_defined (MemberData.props data) (''game'', ''game'')
                 (assign_defined (MemberData.props data) (''status'', ''status'')
                   (Member.attrs this)))))))"
  by (cases "MemberData.props data ''client_status''"; cases "MemberData.props data ''joined_at''")
     (simp_all add: Member_update_def Let_def)


lemma Member_update_copied:
  "Member.attrs (snd (Member_update E data club this)) ''status'' =
     merged (MemberData.props data) (Member.attrs this) (''status'', ''status'')"
  "Member.attrs (snd (Member_update E data club this)) ''game'' =
     merged (MemberData.props data) (Member.attrs this) (''game'', ''game'')"
  "Member.attrs (snd (Member_update E data club this)) ''activities'' =
     merged (MemberData.props data) (Member.attrs this) (''activities'', ''activities'')"
  "Member.attrs (snd (Member_update E data club this)) ''premiumSince'' =
     merged (MemberData.props data) (Member.attrs this) (''premium_since'', ''premiumSince'')"
  "Member.attrs (snd (Member_update E data club this)) ''nick'' =
     merged (MemberData.props data) (Member.attrs this) (''nick'', ''nick'')"
  by (cases "MemberData.props data ''client_status''"; cases "MemberData.props data ''joined_at''";
      simp add: Member_update_attrs merged_def assign_defined_apply split: option.splits)+

lemma Member_update_merged:
  assumes "(f, a) \<in> set Member_update_fields"
  shows "Member.attrs (snd (Member_update E data club this)) a =
           merged (MemberData.props data) (Member.attrs this) (f, a)"
proof -
  from assms consider "f = ''status''" "a = ''status''" | "f = ''game''" "a = ''game''"
    | "f = ''activities''" "a = ''activities''" | "f = ''premium_since''" "a = ''premiumSince''"
    | "f = ''nick''" "a = ''nick''"
    unfolding Member_update_fields_def by fastforce
  then show ?thesis
    by cases (simp_all only: Member_update_copied)
qed

lemma Member_update_roles:
  "Member.roles (snd (Member_update E data club this)) =
     (case MemberData.roles data of None \<Rightarrow> Member.roles this | Some rs \<Rightarrow> rs)"
  by (simp add: Member_update_def Let_def)

lemma Member_update_joinedAt:
  "Member.attrs (snd (Member_update E data club this)) ''joinedAt'' =
     (case MemberData.props data ''joined_at'' of
        None \<Rightarrow> Member.attrs this ''joinedAt''
      | Some v \<Rightarrow> Some (Date_parse E v))"
  by (cases "MemberData.props data ''client_status''"; cases "MemberData.props data ''joined_at''")
     (simp_all add: Member_update_attrs assign_defined_apply)

lemma Member_update_clientStatus:
  "Member.attrs (snd (Member_update E data club this)) ''clientStatus'' =
     (case MemberData.props data ''client_status'' of
        None \<Rightarrow> Member.attrs this ''clientStatus''
      | Some v \<Rightarrow> Some (Object_assign E client_status_defaults v))"
  by (cases "MemberData.props data ''client_status''"; cases "MemberData.props data ''joined_at''")
     (simp_all add: Member_update_attrs assign_defined_apply)

lemma fold_assign_other:
  "a \<notin> snd ` set fs \<Longrightarrow> fold (assign_defined data) fs this a = this a"
  by (induction fs arbitrary: this) (auto simp: assign_defined_apply)

lemma fold_assign_merged:
  "distinct (map snd fs) \<Longrightarrow> (f, a) \<in> set fs \<Longrightarrow>
   fold (assign_defined data) fs this a = merged data this (f, a)"
proof (induction fs arbitrary: this)
  case Nil
  then show ?case by simp
next
  case (Cons x fs)
  show ?case
  proof (cases "x = (f, a)")
    case True
    with Cons.prems have "a \<notin> snd ` set fs" by auto
    with True show ?thesis
      by (simp add: fold_assign_other assign_defined_apply merged_def split: option.splits)
  next
    case False
    with Cons.prems have mem: "(f, a) \<in> set fs" and d: "distinct (map snd fs)"
      by auto
    from mem have "a \<in> snd ` set fs" by force
    with Cons.prems(1) have ne: "snd x \<noteq> a" by auto
    have "fold (assign_defined data) fs (assign_defined data x this) a =
          merged data (assign_defined data x this) (f, a)"
      using Cons.IH [OF d mem] .
    with ne show ?thesis
      by (cases x) (simp add: merged_def assign_defined_apply split: option.splits)
  qed
qed

lemma Club_update_fields_distinct: "distinct (map snd Club_update_fields)"
  by (simp add: Club_update_fields_def)

lemma Club_update_merged:
  "(f, a) \<in> set Club_update_fields \<Longrightarrow>
   Club.attrs (Club_update data this) a = merged data (Club.attrs this) (f, a)"
  by (simp add: Club_update_def fold_assign_merged [OF Club_update_fields_distinct])

lemma ClubChannel_update_merged:
  "ClubChannel_update E data this = Inr this' \<Longrightarrow> (f, a) \<in> set ClubChannel_update_fields \<Longrightarrow>
   ClubChannel.attrs this' a = merged data (ClubChannel.attrs this) (f, a)"
  by (auto simp: ClubChannel_update_fields_def ClubChannel_update_def Let_def merged_def
        assign_defined_apply split: option.splits sum.splits if_splits json.splits)

lemma ClubChannel_update_nsfw:
  "ClubChannel_update E data this = Inr this' \<Longrightarrow>
   nsfw_name (ClubChannel.attrs this' ''name'') =
     Inr (nsfw_name (ClubChannel.attrs this' ''name'') = Inr True) \<and>
   ClubChannel.attrs this' ''nsfw'' =
     (if nsfw_name (ClubChannel.attrs this' ''name'') = Inr True then Some (Bool True)
      else data ''nsfw'')"
  by (auto simp: ClubChannel_update_def Let_def js_or_def
        assign_defined_apply split: option.splits sum.splits if_splits json.splits)

lemma Member_update_id: "Member.id (snd (Member_update E data club this)) = Member.id this"
  by (simp add: Member_update_def Let_def)

lemma ex_channel_update:
  "ClubChannel_update ex_externals ex_channel_data ex_channel =
     Inr (ex_channel\<lparr>ClubChannel.attrs :=
            [''name'' \<mapsto> Str ''general'', ''position'' \<mapsto> Num 0, ''parentID'' \<mapsto> Null,
             ''nsfw'' \<mapsto> Bool False]\<rparr>)"
  by (simp add: ClubChannel_update_def ex_channel_data_def ex_channel_def assign_defined_def
        nsfw_name_def js_or_def Let_def)

lemma Club_update_other:
  "a \<notin> snd ` set Club_update_fields \<Longrightarrow>
   Club.attrs (Club_update data this) a = Club.attrs this a"
  by (simp add: Club_update_def fold_assign_other)

lemma Member_update_other:
  "a \<notin> set Member_update_attributes \<Longrightarrow>
   Member.attrs (snd (Member_update E data club this)) a = Member.attrs this a"
  by (cases "MemberData.props data ''client_status''"; cases "MemberData.props data ''joined_at''")
     (simp_all add: Member_update_attributes_def Member_update_attrs assign_defined_apply)

lemma Member_update_user:
  "Member.user (snd (Member_update E data club this)) = Member.user this"
  by (simp add: Member_update_def Let_def)

lemma ClubChannel_update_overwrites:
  "ClubChannel_update E data this = Inr this' \<Longrightarrow>
   (\<forall>ows. data ''permission_overwrites'' = Some (Arr ows) \<longrightarrow>
      permissionOverwrites this' = Some (fold (Collection_add_overwrites E) ows Map.empty)) \<and>
   (\<not> truthy (data ''permission_overwrites'') \<longrightarrow>
      permissionOverwrites this' = permissionOverwrites this) \<and>
   ClubChannel.id this' = ClubChannel.id this"
  by (auto simp: ClubChannel_update_def Let_def
        split: option.splits sum.splits if_splits json.splits)

lemma ClubChannel_update_other:
  "ClubChannel_update E data this = Inr this' \<Longrightarrow> a \<notin> set ClubChannel_update_attributes \<Longrightarrow>
   ClubChannel.attrs this' a = ClubChannel.attrs this a"
  by (auto simp: ClubChannel_update_attributes_def ClubChannel_update_def Let_def
        assign_defined_apply split: option.splits sum.splits if_splits json.splits)

section \<open>Presence-aware merge\<close>

text \<open>
  Claim C5, as amended.  \<^verbatim>\<open>Club.update\<close>: each of the 26 attributes it copies
  keeps its value when the payload lacks the field and takes the payload's
  value when the field is present, whatever the value; every other attribute
  of the club (\<^verbatim>\<open>memberCount\<close>, \<^verbatim>\<open>unavailable\<close>, \<^verbatim>\<open>joinedAt\<close>, the widget and
  approximate counts, which only the constructor sets) keeps its value whatever
  the payload holds.  \<^verbatim>\<open>Member.update\<close>: the presence-aware rule for \<^verbatim>\<open>status\<close>,
  \<^verbatim>\<open>game\<close>, \<^verbatim>\<open>activities\<close>, \<^verbatim>\<open>premiumSince\<close>, \<^verbatim>\<open>nick\<close> and \<^verbatim>\<open>roles\<close>;
  \<^verbatim>\<open>joinedAt\<close> keeps its value when \<^verbatim>\<open>joined_at\<close> is absent and is \<^verbatim>\<open>Date.parse\<close>
  of the field when present; \<^verbatim>\<open>clientStatus\<close> keeps its value when
  \<^verbatim>\<open>client_status\<close> is absent and is the field laid over the all-offline
  defaults when present; no other attribute, nor the user or the id, changes.
  \<^verbatim>\<open>ClubChannel.update\<close>, when it returns: the presence-aware rule for \<^verbatim>\<open>type\<close>,
  \<^verbatim>\<open>name\<close>, \<^verbatim>\<open>position\<close> and \<^verbatim>\<open>parentID\<close>; \<^verbatim>\<open>nsfw\<close> is \<^verbatim>\<open>true\<close> when the name
  matches the nsfw pattern, and is the payload's \<^verbatim>\<open>nsfw\<close> value when the name
  does not match and the field is present; the overwrite registry is rebuilt
  from the payload's list when \<^verbatim>\<open>permission_overwrites\<close> is an array and is
  left as it was when the field is absent, \<^verbatim>\<open>null\<close> or otherwise falsy; no
  other attribute changes.
\<close>

theorem C5_presence_aware_merge:
  "(\<forall>fa \<in> set Club_update_fields.
      Club.attrs (Club_update data club) (snd fa) = merged data (Club.attrs club) fa) \<and>
   (\<forall>a. a \<notin> snd ` set Club_update_fields \<longrightarrow>
      Club.attrs (Club_update data club) a = Club.attrs club a) \<and>
   (\<forall>fa \<in> set Member_update_fields.
      Member.attrs (snd (Member_update E mdata mclub member)) (snd fa) =
        merged (MemberData.props mdata) (Member.attrs member) fa) \<and>
   Member.roles (snd (Member_update E mdata mclub member)) =
     (case MemberData.roles mdata of None \<Rightarrow> Member.roles member | Some rs \<Rightarrow> rs) \<and>
   Member.attrs (snd (Member_update E mdata mclub member)) ''joinedAt'' =
     (case MemberData.props mdata ''joined_at'' of
        None \<Rightarrow> Member.attrs member ''joinedAt''
      | Some v \<Rightarrow> Some (Date_parse E v)) \<and>
   Member.attrs (snd (Member_update E mdata mclub member)) ''clientStatus'' =
     (case MemberData.props mdata ''client_status'' of
        None \<Rightarrow> Member.attrs member ''clientStatus''
      | Some v \<Rightarrow> Some (Object_assign E client_status_defaults v)) \<and>
   (\<forall>a. a \<notin> set Member_update_attributes \<longrightarrow>
      Member.attrs (snd (Member_update E mdata mclub member)) a = Member.attrs member a) \<and>
   Member.user (snd (Member_update E mdata mclub member)) = Member.user member \<and>
   Member.id (snd (Member_update E mdata mclub member)) = Member.id member \<and>
   (\<forall>channel'. ClubChannel_update E cdata channel = Inr channel' \<longrightarrow>
      (\<forall>fa \<in> set ClubChannel_update_fields.
         ClubChannel.attrs channel' (snd fa) = merged cdata (ClubChannel.attrs channel) fa) \<and>
      (nsfw_name (ClubChannel.attrs channel' ''name'') = Inr True \<longrightarrow>
         ClubChannel.attrs channel' ''nsfw'' = Some (Bool True)) \<and>
      (nsfw_name (ClubChannel.attrs channel' ''name'') \<noteq> Inr True \<longrightarrow> cdata ''nsfw'' \<noteq> None \<longrightarrow>
         ClubChannel.attrs channel' ''nsfw'' = cdata ''nsfw'') \<and>
      (\<forall>ows. cdata ''permission_overwrites'' = Some (Arr ows) \<longrightarrow>
         permissionOverwrites channel' =
           Some (fold (Collection_add_overwrites E) ows Map.empty)) \<and>
      (\<not> truthy (cdata ''permission_overwrites'') \<longrightarrow>
         permissionOverwrites channel' = permissionOverwrites channel) \<and>
      (\<forall>a. a \<notin> set ClubChannel_update_attributes \<longrightarrow>
         ClubChannel.attrs channel' a = ClubChannel.attrs channel a))"
proof -
  have club: "\<forall>fa \<in> set Club_update_fields.
      Club.attrs (Club_update data club) (snd fa) = merged data (Club.attrs club) fa"
    using Club_update_merged [of _ _ data club] by auto
  have club_other: "\<forall>a. a \<notin> snd ` set Club_update_fields \<longrightarrow>
      Club.attrs (Club_update data club) a = Club.attrs club a"
    by (simp add: Club_update_other)
  have mem: "\<forall>fa \<in> set Member_update_fields.
      Member.attrs (snd (Member_update E mdata mclub member)) (snd fa) =
        merged (MemberData.props mdata) (Member.attrs member) fa"
    using Member_update_merged [of _ _ E mdata mclub member] by auto
  have mem_other: "\<forall>a. a \<notin> set Member_update_attributes \<longrightarrow>
      Member.attrs (snd (Member_update E mdata mclub member)) a = Member.attrs member a"
    by (simp add: Member_update_other)
  have chan: "\<forall>channel'. ClubChannel_update E cdata channel = Inr channel' \<longrightarrow>
      (\<forall>fa \<in> set ClubChannel_update_fields.
         ClubChannel.attrs channel' (snd fa) = merged cdata (ClubChannel.attrs channel) fa) \<and>
      (nsfw_name (ClubChannel.attrs channel' ''name'') = Inr True \<longrightarrow>
         ClubChannel.attrs channel' ''nsfw'' = Some (Bool True)) \<and>
      (nsfw_name (ClubChannel.attrs channel' ''name'') \<noteq> Inr True \<longrightarrow> cdata ''nsfw'' \<noteq> None \<longrightarrow>
         ClubChannel.attrs channel' ''nsfw'' = cdata ''nsfw'') \<and>
      (\<forall>ows. cdata ''permission_overwrites'' = Some (Arr ows) \<longrightarrow>
         permissionOverwrites channel' =
           Some (fold (Collection_add_overwrites E) ows Map.empty)) \<and>
      (\<not> truthy (cdata ''permission_overwrites'') \<longrightarrow>
         permissionOverwrites channel' = permissionOverwrites channel) \<and>
      (\<forall>a. a \<notin> set ClubChannel_update_attributes \<longrightarrow>
         ClubChannel.attrs channel' a = ClubChannel.attrs channel a)"
  proof (intro allI impI)
    fix channel'
    assume run: "ClubChannel_update E cdata channel = Inr channel'"
    have f: "\<forall>fa \<in> set ClubChannel_update_fields.
         ClubChannel.attrs channel' (snd fa) = merged cdata (ClubChannel.attrs channel) fa"
      using ClubChannel_update_merged [OF run] by auto
    have n1: "nsfw_name (ClubChannel.attrs channel' ''name'') = Inr True \<longrightarrow>
         ClubChannel.attrs channel' ''nsfw'' = Some (Bool True)"
      using ClubChannel_update_nsfw [OF run] by simp
    have n2: "nsfw_name (ClubChannel.attrs channel' ''name'') \<noteq> Inr True \<longrightarrow>
         cdata ''nsfw'' \<noteq> None \<longrightarrow> ClubChannel.attrs channel' ''nsfw'' = cdata ''nsfw''"
      using ClubChannel_update_nsfw [OF run] by simp
    have o1: "\<forall>ows. cdata ''permission_overwrites'' = Some (Arr ows) \<longrightarrow>
         permissionOverwrites channel' =
           Some (fold (Collection_add_overwrites E) ows Map.empty)"
      using ClubChannel_update_overwrites [OF run] by (rule conjunct1)
    have o2: "\<not> truthy (cdata ''permission_overwrites'') \<longrightarrow>
         permissionOverwrites channel' = permissionOverwrites channel"
      using ClubChannel_update_overwrites [OF run] by (rule conjunct1 [OF conjunct2])
    have o3: "\<forall>a. a \<notin> set ClubChannel_update_attributes \<longrightarrow>
         ClubChannel.attrs channel' a = ClubChannel.attrs channel a"
      using ClubChannel_update_other [OF run] by simp
    from f n1 n2 o1 o2 o3
    show "(\<forall>fa \<in> set ClubChannel_update_fields.
         ClubChannel.attrs channel' (snd fa) = merged cdata (ClubChannel.attrs channel) fa) \<and>
      (nsfw_name (ClubChannel.attrs channel' ''name'') = Inr True \<longrightarrow>
         ClubChannel.attrs channel' ''nsfw'' = Some (Bool True)) \<and>
      (nsfw_name (ClubChannel.attrs channel' ''name'') \<noteq> Inr True \<longrightarrow> cdata ''nsfw'' \<noteq> None \<longrightarrow>
         ClubChannel.attrs channel' ''nsfw'' = cdata ''nsfw'') \<and>
      (\<forall>ows. cdata ''permission_overwrites'' = Some (Arr ows) \<longrightarrow>
         permissionOverwrites channel' =
           Some (fold (Collection_add_overwrites E) ows Map.empty)) \<and>
      (\<not> truthy (cdata ''permission_overwrites'') \<longrightarrow>
         permissionOverwrites channel' = permissionOverwrites channel) \<and>
      (\<forall>a. a \<notin> set ClubChannel_update_attributes \<longrightarrow>
         ClubChannel.attrs channel' a = ClubChannel.attrs channel a)"
      by (intro conjI)
  qed
  from club club_other mem Member_update_roles [of E mdata mclub member]
    Member_update_joinedAt [of E mdata mclub member]
    Member_update_clientStatus [of E mdata mclub member] mem_other
    Member_update_user [of E mdata mclub member] Member_update_id [of E mdata mclub member] chan
  show ?thesis by (intro conjI)
qed

text \<open>
  A club patch with \<^verbatim>\<open>null\<close>, \<^verbatim>\<open>0\<close>, \<^verbatim>\<open>false\<close> and \<^verbatim>\<open>""\<close> values, no
  \<^verbatim>\<open>owner_id\<close> and a \<^verbatim>\<open>member_count\<close>, which the merge does not read; a member
  patch with an empty nick and no status; a channel patch with a \<^verbatim>\<open>null\<close>
  parent, no name and no \<^verbatim>\<open>permission_overwrites\<close>.
\<close>

theorem C5_witness:
  "Club.attrs (Club_update ex_club_data ex_club) ''name'' = Some (Str ''go'') \<and>
   Club.attrs (Club_update ex_club_data ex_club) ''icon'' = Some Null \<and>
   Club.attrs (Club_update ex_club_data ex_club) ''afkTimeout'' = Some (Num 0) \<and>
   Club.attrs (Club_update ex_club_data ex_club) ''large'' = Some (Bool False) \<and>
   Club.attrs (Club_update ex_club_data ex_club) ''description'' = Some (Str []) \<and>
   Club.attrs (Club_update ex_club_data ex_club) ''ownerID'' = Some (Str ''9'') \<and>
   Club.attrs (Club_update ex_club_data ex_club) ''memberCount'' = Some (Num 40) \<and>
   Member.attrs (snd (Member_update ex_externals ex_member_data (Some ex_club) ex_member)) ''nick''
     = Some (Str []) \<and>
   Member.attrs (snd (Member_update ex_externals ex_member_data (Some ex_club) ex_member)) ''status''
     = None \<and>
   Member.roles (snd (Member_update ex_externals ex_member_data (Some ex_club) ex_member)) = [] \<and>
   Member.attrs (snd (Member_update ex_externals ex_member_data (Some ex_club) ex_member)) ''joinedAt''
     = Some (Arr [Str ''Date.parse'', Str ''2020-01-01'']) \<and>
   ClubChannel_update ex_externals ex_channel_data ex_channel =
     Inr (ex_channel\<lparr>ClubChannel.attrs :=
            [''name'' \<mapsto> Str ''general'', ''position'' \<mapsto> Num 0, ''parentID'' \<mapsto> Null,
             ''nsfw'' \<mapsto> Bool False]\<rparr>) \<and>
   ClubChannel.attrs
     (ex_channel\<lparr>ClubChannel.attrs :=
        [''name'' \<mapsto> Str ''general'', ''position'' \<mapsto> Num 0, ''parentID'' \<mapsto> Null,
         ''nsfw'' \<mapsto> Bool False]\<rparr>) ''parentID'' = Some Null \<and>
   ClubChannel.attrs
     (ex_channel\<lparr>ClubChannel.attrs :=
        [''name'' \<mapsto> Str ''general'', ''position'' \<mapsto> Num 0, ''parentID'' \<mapsto> Null,
         ''nsfw'' \<mapsto> Bool False]\<rparr>) ''name'' = Some (Str ''general'') \<and>
   permissionOverwrites
     (ex_channel\<lparr>ClubChannel.attrs :=
        [''name'' \<mapsto> Str ''general'', ''position'' \<mapsto> Num 0, ''parentID'' \<mapsto> Null,
         ''nsfw'' \<mapsto> Bool False]\<rparr>) = Some ex_overwrites"
proof -
  note th = C5_presence_aware_merge
    [of ex_club_data ex_club ex_externals ex_member_data "Some ex_club" ex_member
        ex_channel_data ex_channel]
  have club: "\<forall>fa \<in> set Club_update_fields.
      Club.attrs (Club_update ex_club_data ex_club) (snd fa) =
        merged ex_club_data (Club.attrs ex_club) fa"
    using th by (rule conjunct1)
  have c1: "Club.attrs (Club_update ex_club_data ex_club) ''name'' = Some (Str ''go'')"
    using bspec [OF club, of "(''name'', ''name'')"]
    by (simp add: Club_update_fields_def merged_def ex_club_data_def)
  have c2: "Club.attrs (Club_update ex_club_data ex_club) ''icon'' = Some Null"
    using bspec [OF club, of "(''icon'', ''icon'')"]
    by (simp add: Club_update_fields_def merged_def ex_club_data_def)
  have c3: "Club.attrs (Club_update ex_club_data ex_club) ''afkTimeout'' = Some (Num 0)"
    using bspec [OF club, of "(''afk_timeout'', ''afkTimeout'')"]
    by (simp add: Club_update_fields_def merged_def ex_club_data_def)
  have c4: "Club.attrs (Club_update ex_club_data ex_club) ''large'' = Some (Bool False)"
    using bspec [OF club, of "(''large'', ''large'')"]
    by (simp add: Club_update_fields_def merged_def ex_club_data_def)
  have c5: "Club.attrs (Club_update ex_club_data ex_club) ''description'' = Some (Str [])"
    using bspec [OF club, of "(''description'', ''description'')"]
    by (simp add: Club_update_fields_def merged_def ex_club_data_def)
  have c6: "Club.attrs (Club_update ex_club_data ex_club) ''ownerID'' = Some (Str ''9'')"
    using bspec [OF club, of "(''owner_id'', ''ownerID'')"]
    by (simp add: Club_update_fields_def merged_def ex_club_data_def ex_club_def)
  have c7: "Club.attrs (Club_update ex_club_data ex_club) ''memberCount'' = Some (Num 40)"
    using conjunct1 [OF conjunct2 [OF th], rule_format, of "''memberCount''"]
    by (simp add: Club_update_fields_def ex_club_def)
  note r2 = conjunct2 [OF conjunct2 [OF th]]
  have mem: "\<forall>fa \<in> set Member_update_fields.
      Member.attrs (snd (Member_update ex_externals ex_member_data (Some ex_club) ex_member)) (snd fa) =
        merged (MemberData.props ex_member_data) (Member.attrs ex_member) fa"
    using r2 by (rule conjunct1)
  have m1: "Member.attrs (snd (Member_update ex_externals ex_member_data (Some ex_club) ex_member))
              ''nick'' = Some (Str [])"
    using bspec [OF mem, of "(''nick'', ''nick'')"]
    by (simp add: Member_update_fields_def merged_def ex_member_data_def)
  have m2: "Member.attrs (snd (Member_update ex_externals ex_member_data (Some ex_club) ex_member))
              ''status'' = None"
    using bspec [OF mem, of "(''status'', ''status'')"]
    by (simp add: Member_update_fields_def merged_def ex_member_data_def ex_member_def)
  have m3: "Member.roles (snd (Member_update ex_externals ex_member_data (Some ex_club) ex_member)) = []"
    using conjunct1 [OF conjunct2 [OF r2]]
    by (simp add: ex_member_data_def)
  have m4: "Member.attrs (snd (Member_update ex_externals ex_member_data (Some ex_club) ex_member))
              ''joinedAt'' = Some (Arr [Str ''Date.parse'', Str ''2020-01-01''])"
    using conjunct1 [OF conjunct2 [OF conjunct2 [OF r2]]]
    by (simp add: ex_member_data_def ex_externals_def)
  note r7 = conjunct2 [OF conjunct2 [OF conjunct2 [OF conjunct2 [OF conjunct2 [OF
              conjunct2 [OF conjunct2 [OF r2]]]]]]]
  note chan = r7 [rule_format, OF ex_channel_update]
  have ch: "\<forall>fa \<in> set ClubChannel_update_fields.
         ClubChannel.attrs (ex_channel\<lparr>ClubChannel.attrs :=
            [''name'' \<mapsto> Str ''general'', ''position'' \<mapsto> Num 0, ''parentID'' \<mapsto> Null,
             ''nsfw'' \<mapsto> Bool False]\<rparr>) (snd fa) =
         merged ex_channel_data (ClubChannel.attrs ex_channel) fa"
    using r7 ex_channel_update by blast
  have h1: "ClubChannel.attrs (ex_channel\<lparr>ClubChannel.attrs :=
            [''name'' \<mapsto> Str ''general'', ''position'' \<mapsto> Num 0, ''parentID'' \<mapsto> Null,
             ''nsfw'' \<mapsto> Bool False]\<rparr>) ''parentID'' = Some Null"
    using bspec [OF ch, of "(''parent_id'', ''parentID'')"]
    by (simp add: ClubChannel_update_fields_def merged_def ex_channel_data_def)
  have h2: "ClubChannel.attrs (ex_channel\<lparr>ClubChannel.attrs :=
            [''name'' \<mapsto> Str ''general'', ''position'' \<mapsto> Num 0, ''parentID'' \<mapsto> Null,
             ''nsfw'' \<mapsto> Bool False]\<rparr>) ''name'' = Some (Str ''general'')"
    using bspec [OF ch, of "(''name'', ''name'')"]
    by (simp add: ClubChannel_update_fields_def merged_def ex_channel_data_def ex_channel_def)
  have h3: "permissionOverwrites (ex_channel\<lparr>ClubChannel.attrs :=
            [''name'' \<mapsto> Str ''general'', ''position'' \<mapsto> Num 0, ''parentID'' \<mapsto> Null,
             ''nsfw'' \<mapsto> Bool False]\<rparr>) = Some ex_overwrites"
    using r7 ex_channel_update by (simp add: ex_channel_data_def ex_channel_def)
  from c1 c2 c3 c4 c5 c6 c7 m1 m2 m3 m4 ex_channel_update h1 h2 h3 show ?thesis by (intro conjI)
qed

text \<open>
  Claim C5 as stated fails on three attributes, each with its field present in
  the payload.  Merging \<^verbatim>\<open>{nsfw: false}\<close> into a channel named \<^verbatim>\<open>nsfw\<close> leaves
  \<^verbatim>\<open>nsfw\<close> true.  Merging \<^verbatim>\<open>{member_count: 5}\<close> into the example club leaves
  \<^verbatim>\<open>memberCount\<close> at 40: only the constructor reads that field.  Merging
  \<^verbatim>\<open>{permission_overwrites: null}\<close> into channel \<open>5\<close> leaves its overwrite
  registry as it was.
\<close>

theorem C5_counterexample:
  "attr_after
     (ClubChannel_update ex_externals [''nsfw'' \<mapsto> Bool False]
        (ex_channel\<lparr>ClubChannel.attrs := [''name'' \<mapsto> Str ''nsfw'']\<rparr>)) ''nsfw''
     = Inr (Some (Bool True)) \<and>
   [''nsfw'' \<mapsto> Bool False] ''nsfw'' = Some (Bool False) \<and>
   Club.attrs (Club_update [''member_count'' \<mapsto> Num 5] ex_club) ''memberCount'' = Some (Num 40) \<and>
   ClubChannel_update ex_externals [''permission_overwrites'' \<mapsto> Null] ex_channel =
     Inr (ex_channel\<lparr>ClubChannel.attrs := (ClubChannel.attrs ex_channel)(''nsfw'' := None)\<rparr>) \<and>
   permissionOverwrites
     (ex_channel\<lparr>ClubChannel.attrs := (ClubChannel.attrs ex_channel)(''nsfw'' := None)\<rparr>) =
     Some ex_overwrites"
proof -
  have a: "attr_after
     (ClubChannel_update ex_externals [''nsfw'' \<mapsto> Bool False]
        (ex_channel\<lparr>ClubChannel.attrs := [''name'' \<mapsto> Str ''nsfw'']\<rparr>)) ''nsfw''
     = Inr (Some (Bool True))"
    by (simp add: attr_after_def ClubChannel_update_def assign_defined_def nsfw_name_def
          js_or_def Let_def)
  have b: "Club.attrs (Club_update [''member_count'' \<mapsto> Num 5] ex_club) ''memberCount'' =
           Some (Num 40)"
    by (simp add: Club_update_other Club_update_fields_def ex_club_def)
  have c: "ClubChannel_update ex_externals [''permission_overwrites'' \<mapsto> Null] ex_channel =
     Inr (ex_channel\<lparr>ClubChannel.attrs := (ClubChannel.attrs ex_channel)(''nsfw'' := None)\<rparr>)"
    by (simp add: ClubChannel_update_def assign_defined_def nsfw_name_def js_or_def Let_def
          ex_channel_def)
  have d: "permissionOverwrites
     (ex_channel\<lparr>ClubChannel.attrs := (ClubChannel.attrs ex_channel)(''nsfw'' := None)\<rparr>) =
     Some ex_overwrites"
    by (simp add: ex_channel_def)
  from a b c d show ?thesis by simp
qed

section \<open>The nsfw attribute of a channel\<close>

text \<open>
  After a channel merge that returns: a name that is exactly \<^verbatim>\<open>nsfw\<close> or starts
  with \<^verbatim>\<open>nsfw-\<close> makes \<^verbatim>\<open>nsfw\<close> true; an explicit \<^verbatim>\<open>nsfw: true\<close> makes it true
  whatever the name; with the flag absent and a name that matches neither
  pattern the attribute is left \<^verbatim>\<open>undefined\<close>, which is falsy.
\<close>

theorem nsfw_derivation:
  assumes "ClubChannel_update E data this = Inr this'"
  shows "(ClubChannel.attrs this' ''name'' = Some (Str ''nsfw'') \<longrightarrow>
            ClubChannel.attrs this' ''nsfw'' = Some (Bool True)) \<and>
         (\<forall>rest. ClubChannel.attrs this' ''name'' = Some (Str (''nsfw-'' @ rest)) \<longrightarrow>
            ClubChannel.attrs this' ''nsfw'' = Some (Bool True)) \<and>
         (data ''nsfw'' = Some (Bool True) \<longrightarrow>
            ClubChannel.attrs this' ''nsfw'' = Some (Bool True)) \<and>
         (data ''nsfw'' = None \<longrightarrow> nsfw_name (ClubChannel.attrs this' ''name'') = Inr False \<longrightarrow>
            ClubChannel.attrs this' ''nsfw'' = None \<and> \<not> truthy (ClubChannel.attrs this' ''nsfw''))"
  using ClubChannel_update_nsfw [OF assms]
  by (auto simp: nsfw_name_def split: if_splits)

theorem nsfw_derivation_witness:
  "ClubChannel_update ex_externals [''name'' \<mapsto> Str ''nsfw-art'']
     (ex_channel\<lparr>ClubChannel.attrs := Map.empty\<rparr>) =
   Inr (ex_channel\<lparr>ClubChannel.attrs :=
          [''name'' \<mapsto> Str ''nsfw-art'', ''nsfw'' \<mapsto> Bool True]\<rparr>) \<and>
   ClubChannel.attrs
     (ex_channel\<lparr>ClubChannel.attrs := [''name'' \<mapsto> Str ''nsfw-art'', ''nsfw'' \<mapsto> Bool True]\<rparr>)
     ''nsfw'' = Some (Bool True)"
proof -
  have run: "ClubChannel_update ex_externals [''name'' \<mapsto> Str ''nsfw-art'']
               (ex_channel\<lparr>ClubChannel.attrs := Map.empty\<rparr>) =
             Inr (ex_channel\<lparr>ClubChannel.attrs :=
                    [''name'' \<mapsto> Str ''nsfw-art'', ''nsfw'' \<mapsto> Bool True]\<rparr>)"
    by (simp add: ClubChannel_update_def assign_defined_def nsfw_name_def js_or_def Let_def)
  have "ClubChannel.attrs
     (ex_channel\<lparr>ClubChannel.attrs := [''name'' \<mapsto> Str ''nsfw-art'', ''nsfw'' \<mapsto> Bool True]\<rparr>)
     ''nsfw'' = Some (Bool True)"
    using conjunct1 [OF conjunct2 [OF nsfw_derivation [OF run]]] by simp
  with run show ?thesis by (intro conjI)
qed

text \<open>
  Claim C6 at a payload without the flag: a new channel built from
  \<^verbatim>\<open>{name: "lobby", type: 2}\<close> has \<^verbatim>\<open>nsfw\<close> \<^verbatim>\<open>undefined\<close>
  (\<^verbatim>\<open>false || undefined\<close>), not the boolean \<^verbatim>\<open>false\<close>.
\<close>

theorem C6_absent_flag_nsfw_undefined:
  "attr_after
     (ClubChannel_update ex_externals [''name'' \<mapsto> Str ''lobby'', ''type'' \<mapsto> Num 2]
        \<lparr>ClubChannel.id = ''6'', attrs = Map.empty, permissionOverwrites = None\<rparr>) ''nsfw''
     = Inr None \<and>
   attr_after
     (ClubChannel_update ex_externals [''name'' \<mapsto> Str ''lobby'', ''type'' \<mapsto> Num 2]
        \<lparr>ClubChannel.id = ''6'', attrs = Map.empty, permissionOverwrites = None\<rparr>) ''nsfw''
     \<noteq> Inr (Some (Bool False))"
  by (simp add: attr_after_def ClubChannel_update_def assign_defined_def nsfw_name_def js_or_def
        Let_def)

text \<open>
  Claim C7 at a channel named \<^verbatim>\<open>general\<close>: merging \<^verbatim>\<open>{nsfw: true}\<close> sets \<^verbatim>\<open>nsfw\<close>
  to true; merging \<^verbatim>\<open>{position: 3}\<close> afterwards, a payload with neither a name
  nor an nsfw field, leaves \<^verbatim>\<open>nsfw\<close> \<^verbatim>\<open>undefined\<close>: the assignment to \<^verbatim>\<open>nsfw\<close> is
  not guarded by the presence of a field.
\<close>

theorem C7_forced_nsfw_cleared:
  "ClubChannel_update ex_externals [''nsfw'' \<mapsto> Bool True] ex_channel =
     Inr (ex_channel\<lparr>ClubChannel.attrs := (ClubChannel.attrs ex_channel)(''nsfw'' \<mapsto> Bool True)\<rparr>) \<and>
   nsfw_name (ClubChannel.attrs ex_channel ''name'') = Inr False \<and>
   attr_after
     (ClubChannel_update ex_externals [''position'' \<mapsto> Num 3]
        (ex_channel\<lparr>ClubChannel.attrs := (ClubChannel.attrs ex_channel)(''nsfw'' \<mapsto> Bool True)\<rparr>))
     ''nsfw'' = Inr None"
  by (simp add: attr_after_def ClubChannel_update_def assign_defined_def nsfw_name_def js_or_def
        Let_def ex_channel_def)

section \<open>Voice-state cleanup\<close>

text \<open>
  Claim C8.  For a member of a club whose voice-state registry has a state under
  the member's id, merging a payload whose \<^verbatim>\<open>channel_id\<close> is \<^verbatim>\<open>null\<close> and whose
  \<^verbatim>\<open>mute\<close>, \<^verbatim>\<open>deaf\<close> and \<^verbatim>\<open>suppress\<close> are \<^verbatim>\<open>false\<close> removes that state from the
  registry (and no other), and the member's \<^verbatim>\<open>voiceState\<close> getter then returns
  the all-default Voice State keyed by the member's id.
\<close>

theorem C8_voice_state_cleanup:
  assumes "voiceStates club (Member.id this) = Some st"
      and "MemberData.props data ''channel_id'' = Some Null"
      and "MemberData.props data ''mute'' = Some (Bool False)"
      and "MemberData.props data ''deaf'' = Some (Bool False)"
      and "MemberData.props data ''suppress'' = Some (Bool False)"
  shows "\<exists>club'. fst (Member_update E data (Some club) this) = Some club' \<and>
           voiceStates club' = (voiceStates club)(Member.id this := None) \<and>
           Member_voiceState (Some club') (snd (Member_update E data (Some club) this)) =
             VoiceState_new (Member.id this)"
proof -
  let ?club' = "club\<lparr>voiceStates := (voiceStates club)(Member.id this := None)\<rparr>"
  have upd: "fst (Member_update E data (Some club) this) = Some ?club'"
    using assms(2-5) by (simp add: Member_update_def Member_update_voice_def Let_def)
  have "Member_voiceState (Some ?club') (snd (Member_update E data (Some club) this)) =
          VoiceState_new (Member.id this)"
    by (simp add: Member_voiceState_def Member_update_id)
  with upd show ?thesis by simp
qed

text \<open>
  Member \<open>7\<close> of the example club, who is muted in channel \<open>6\<close>, disconnects.
\<close>

theorem C8_witness:
  "voiceStates ex_club (Member.id ex_member) \<noteq> None \<and>
   (\<exists>club'. fst (Member_update ex_externals ex_voice_data (Some ex_club) ex_member) = Some club' \<and>
      voiceStates club' = (voiceStates ex_club)(''7'' := None) \<and>
      Member_voiceState (Some club')
        (snd (Member_update ex_externals ex_voice_data (Some ex_club) ex_member)) =
        VoiceState_new ''7'')"
proof -
  have st: "voiceStates ex_club (Member.id ex_member) =
        Some \<lparr>VoiceState.id = ''7'',
               attrs = [''channelID'' \<mapsto> Str ''6'', ''mute'' \<mapsto> Bool True,
                        ''deaf'' \<mapsto> Bool False, ''suppress'' \<mapsto> Bool False]\<rparr>"
    by (simp add: ex_club_def ex_member_def)
  have i: "Member.id ex_member = ''7''"
    by (simp add: ex_member_def)
  show ?thesis
    using C8_voice_state_cleanup [OF st, of ex_voice_data ex_externals] st
    by (simp add: ex_voice_data_def i)
qed

section \<open>Member construction\<close>

text \<open>
  Claim C9, as amended.  Constructing a Member with a club: when the payload
  embeds no user and the user registry has no user under the payload's id, the
  constructor throws the error \<^verbatim>\<open>User associated with Member not found\<close> (a
  TypeError when the payload has no id either); a Member constructed with a
  club never has a \<^verbatim>\<open>null\<close> user.  Constructing a Member without a club from a
  payload with an id and no embedded user returns a Member whose user is
  \<^verbatim>\<open>null\<close>.
\<close>

theorem C9_member_construction:
  "(MemberData.user data = None \<longrightarrow> MemberData.id data = Some i \<longrightarrow> i \<noteq> [] \<longrightarrow> users i = None \<longrightarrow>
      Member_new E data (Some club) users =
        Inl (Error (''User associated with Member not found: '' @ i))) \<and>
   (MemberData.user data = None \<longrightarrow> \<not> truthy_id (MemberData.id data) \<longrightarrow>
      Member_new E data (Some club) users = Inl TypeError) \<and>
   (\<forall>m c us. Member_new E data (Some club) users = Inr (m, c, us) \<longrightarrow> Member.user m \<noteq> None) \<and>
   (MemberData.user data = None \<longrightarrow> truthy_id (MemberData.id data) \<longrightarrow>
      (\<exists>m. Member_new E data None users = Inr (m, None, users) \<and> Member.user m = None))"
  by (auto simp: Member_new_def Member_super_id_def truthy_id_def Member_update_def Let_def
        split: option.splits sum.splits if_splits prod.splits)

text \<open>
  With the example club and an empty user registry: a payload with id \<open>8\<close> and
  no user is refused, a payload with neither is a TypeError, a payload that
  embeds user \<open>8\<close> gives a member with that user; without a club the first
  payload gives a member with no user.
\<close>

theorem C9_witness:
  "Member_new ex_externals
     \<lparr>MemberData.id = Some ''8'', user = None, roles = Some [], props = Map.empty\<rparr>
     (Some ex_club) Map.empty =
     Inl (Error ''User associated with Member not found: 8'') \<and>
   Member_new ex_externals
     \<lparr>MemberData.id = None, user = None, roles = Some [], props = Map.empty\<rparr>
     (Some ex_club) Map.empty = Inl TypeError \<and>
   Member.user
     \<lparr>Member.id = ''8'', user = Some (User \<lparr>UserData.id = ''8'', props = Map.empty\<rparr>),
      roles = [''2''], attrs = [''game'' \<mapsto> Null, ''nick'' \<mapsto> Null]\<rparr> \<noteq> None \<and>
   (\<exists>m. Member_new ex_externals
          \<lparr>MemberData.id = Some ''8'', user = None, roles = Some [], props = Map.empty\<rparr>
          None Map.empty = Inr (m, None, Map.empty) \<and> Member.user m = None)"
proof -
  note th1 = C9_member_construction
    [of "\<lparr>MemberData.id = Some ''8'', user = None, roles = Some [], props = Map.empty\<rparr>"
        "''8''" Map.empty ex_externals ex_club]
  note th2 = C9_member_construction
    [of "\<lparr>MemberData.id = None, user = None, roles = Some [], props = Map.empty\<rparr>"
        "''8''" Map.empty ex_externals ex_club]
  note th3 = C9_member_construction
    [of "\<lparr>MemberData.id = None, user = Some \<lparr>UserData.id = ''8'', props = Map.empty\<rparr>,
          roles = Some [''2''], props = Map.empty\<rparr>"
        "''8''" Map.empty ex_externals ex_club]
  have a: "Member_new ex_externals
     \<lparr>MemberData.id = Some ''8'', user = None, roles = Some [], props = Map.empty\<rparr>
     (Some ex_club) Map.empty = Inl (Error ''User associated with Member not found: 8'')"
    using conjunct1 [OF th1] by simp
  have b: "Member_new ex_externals
     \<lparr>MemberData.id = None, user = None, roles = Some [], props = Map.empty\<rparr>
     (Some ex_club) Map.empty = Inl TypeError"
    using conjunct1 [OF conjunct2 [OF th2]] by (simp add: truthy_id_def)
  have built: "Member_new ex_externals
     \<lparr>MemberData.id = None, user = Some \<lparr>UserData.id = ''8'', props = Map.empty\<rparr>,
       roles = Some [''2''], props = Map.empty\<rparr>
     (Some ex_club) Map.empty =
     Inr (\<lparr>Member.id = ''8'', user = Some (User \<lparr>UserData.id = ''8'', props = Map.empty\<rparr>),
           roles = [''2''], attrs = [''game'' \<mapsto> Null, ''nick'' \<mapsto> Null]\<rparr>,
          Some ex_club, [''8'' \<mapsto> User \<lparr>UserData.id = ''8'', props = Map.empty\<rparr>])"
    by (simp add: Member_new_def Member_super_id_def truthy_id_def Member_update_def Let_def
          assign_defined_def ex_externals_def)
  have c: "Member.user
     \<lparr>Member.id = ''8'', user = Some (User \<lparr>UserData.id = ''8'', props = Map.empty\<rparr>),
      roles = [''2''], attrs = [''game'' \<mapsto> Null, ''nick'' \<mapsto> Null]\<rparr> \<noteq> None"
    using conjunct1 [OF conjunct2 [OF conjunct2 [OF th3]]] built by blast
  have d: "\<exists>m. Member_new ex_externals
          \<lparr>MemberData.id = Some ''8'', user = None, roles = Some [], props = Map.empty\<rparr>
          None Map.empty = Inr (m, None, Map.empty) \<and> Member.user m = None"
    using conjunct2 [OF conjunct2 [OF conjunct2 [OF th1]]] by (simp add: truthy_id_def)
  from a b c d show ?thesis by (intro conjI)
qed

text \<open>
  Claim C9 as stated fails for a Member constructed without a club: no user is
  cached under id \<open>8\<close>, the payload embeds none, and the constructor returns a
  Member whose user is \<^verbatim>\<open>null\<close>.
\<close>

theorem C9_counterexample:
  "MemberData.user \<lparr>MemberData.id = Some ''8'', user = None, roles = Some [], props = Map.empty\<rparr> = None \<and>
   (Map.empty :: string \<rightharpoonup> User) ''8'' = None \<and>
   Member_new ex_externals
     \<lparr>MemberData.id = Some ''8'', user = None, roles = Some [], props = Map.empty\<rparr>
     None Map.empty =
     Inr (\<lparr>Member.id = ''8'', user = None, roles = [],
           attrs = [''game'' \<mapsto> Null, ''nick'' \<mapsto> Null]\<rparr>, None, Map.empty)"
  by (simp add: Member_new_def Member_super_id_def truthy_id_def Member_update_def Let_def
        assign_defined_def)

section \<open>Precedence of the member overwrite\<close>

text \<open>
  For a member who is not an administrator at club scope and has an overwrite
  of their own on the channel: a bit that overwrite allows is set in the
  channel-scope result, and a bit it denies without allowing is clear, whatever
  the everyone overwrite and the role overwrites say.
\<close>

theorem member_overwrite_wins:
  assumes "resolve_member (members club) memberID = Some m"
      and "Club_permissionsOf P club (MemberInstance m) = Inr base"
      and "Permission.allow base AND administrator P = 0"
      and "permissionOverwrites channel = Some ows"
      and "ows (Member.id m) = Some om"
  shows "\<exists>final. ClubChannel_permissionsOf P club channel memberID = Inr (Permission final) \<and>
           (bit (PermissionOverwrite.allow om) c \<longrightarrow> bit final c) \<and>
           (bit (deny om) c \<longrightarrow> \<not> bit (PermissionOverwrite.allow om) c \<longrightarrow> \<not> bit final c)"
  using assms
  by (simp add: ClubChannel_permissionsOf_def Let_def bit_or_iff bit_and_iff bit_not_iff
        split: option.splits)

theorem member_overwrite_wins_witness:
  "\<exists>final. ClubChannel_permissionsOf ex_Permissions ex_club
       (ex_channel\<lparr>permissionOverwrites :=
          Some (ex_overwrites(''7'' \<mapsto> \<lparr>PermissionOverwrite.allow = 1, deny = 4\<rparr>))\<rparr>)
       (MemberID ''7'') = Inr (Permission final) \<and> bit final 0 \<and> \<not> bit final 2"
proof -
  let ?ch = "ex_channel\<lparr>permissionOverwrites :=
          Some (ex_overwrites(''7'' \<mapsto> \<lparr>PermissionOverwrite.allow = 1, deny = 4\<rparr>))\<rparr>"
  have h3: "Permission.allow (Permission 19) AND administrator ex_Permissions = 0"
    by (simp add: ex_Permissions_def)
  have reg: "permissionOverwrites ?ch =
          Some (ex_overwrites(''7'' \<mapsto> \<lparr>PermissionOverwrite.allow = 1, deny = 4\<rparr>))"
    by simp
  have om: "(ex_overwrites(''7'' \<mapsto> \<lparr>PermissionOverwrite.allow = 1, deny = 4\<rparr>))
              (Member.id ex_member) = Some \<lparr>PermissionOverwrite.allow = 1, deny = 4\<rparr>"
    by (simp add: ex_member_def)
  have b0: "bit (PermissionOverwrite.allow \<lparr>PermissionOverwrite.allow = 1, deny = 4\<rparr>) (0::nat)"
    by simp
  have b2: "bit (deny \<lparr>PermissionOverwrite.allow = 1, deny = 4\<rparr>) (2::nat) \<and>
            \<not> bit (PermissionOverwrite.allow \<lparr>PermissionOverwrite.allow = 1, deny = 4\<rparr>) (2::nat)"
    by (simp add: bit_iff_odd)
  obtain f0 where f0: "ClubChannel_permissionsOf ex_Permissions ex_club ?ch (MemberID ''7'') =
        Inr (Permission f0)" and "bit f0 0"
    using member_overwrite_wins [OF ex_resolve ex_club_scope h3 reg om, of 0] b0 by blast
  obtain f2 where f2: "ClubChannel_permissionsOf ex_Permissions ex_club ?ch (MemberID ''7'') =
        Inr (Permission f2)" and "\<not> bit f2 2"
    using member_overwrite_wins [OF ex_resolve ex_club_scope h3 reg om, of 2] b2 by blast
  from f0 f2 have "f0 = f2" by simp
  with f0 \<open>bit f0 0\<close> \<open>\<not> bit f2 2\<close> show ?thesis by blast
qed

end
